theory Spec2Isabelle
  imports Main "HOL-Library.Word"
begin

unbundle bit_operations_syntax

section \<open>Machine types and platform constants\<close>

type_synonym u8 = "8 word"
type_synonym u16 = "16 word"
type_synonym u32 = "32 word"
type_synonym u64 = "64 word"

text \<open>A C \<^verbatim>\<open>int\<close> status: 32 bits, compared against \<^verbatim>\<open>XST_SUCCESS\<close> and
  OR-ed bitwise after a cast to \<^verbatim>\<open>u32\<close>.\<close>

type_synonym status = "32 word"

text \<open>Byte-addressed memory, as the 64-bit DMA addresses of the loader see it.\<close>

type_synonym memory = "u64 \<Rightarrow> u8"

text \<open>The values of \<^verbatim>\<open>xstatus.h\<close> and \<^verbatim>\<open>xil_types.h\<close> of the standalone BSP, which
  every driver of the repository includes: \<^verbatim>\<open>XST_SUCCESS 0L\<close>, \<^verbatim>\<open>XST_FAILURE 1L\<close>,
  \<^verbatim>\<open>TRUE 1U\<close>, \<^verbatim>\<open>FALSE 0U\<close>, and the null pointer.\<close>

definition XST_SUCCESS :: status where "XST_SUCCESS = 0"
definition XST_FAILURE :: status where "XST_FAILURE = 1"
definition TRUE :: u8 where "TRUE = 1"
definition FALSE :: u8 where "FALSE = 0"
definition NULL :: u32 where "NULL = 0"

text \<open>Modelled from the spec: \<^verbatim>\<open>XLOADER_SHA3_LEN\<close>, whose defining header
  \<^verbatim>\<open>xloader_secure.h\<close> is not among the sources; the specification fixes one hash-length
  at 48 bytes.\<close>

definition XLOADER_SHA3_LEN :: u32 where "XLOADER_SHA3_LEN = 48"

text \<open>The error codes of \<^verbatim>\<open>xplmi_status.h\<close> that \<^verbatim>\<open>xloader_secure.c\<close> reports
  (an enum in the source).\<close>

datatype XPlmiStatus_t =
    XLOADER_ERR_DATA_COPY_FAIL
  | XLOADER_ERR_PRTN_HASH_CALC_FAIL
  | XLOADER_ERR_PRTN_HASH_COMPARE_FAIL
  | XLOADER_ERR_DMA_TRANSFER
  | XLOADER_ERR_GLITCH_DETECTED
  | XLOADER_ERR_HWROT_BH_AUTH_NOT_ALLOWED

text \<open>The remaining macros the code uses come from headers that are not among the
  sources (\<^verbatim>\<open>xloader_secure.h\<close>, \<^verbatim>\<open>xplmi_dma.h\<close>, \<^verbatim>\<open>xilpdi.h\<close>, \<^verbatim>\<open>xplmi_hw.h\<close>).
  They are parameters of the model: one record of the values a build fixes.\<close>

record plm_consts =
  XLOADER_SECURE_CHUNK_SIZE :: u32
  XIH_PRTN_WORD_LEN :: u32
  XPLMI_PMCRAM_CHUNK_MEMORY :: u32
  XPLMI_PMCRAM_CHUNK_MEMORY_1 :: u32
  XPLMI_DEVICE_COPY_STATE_BLK :: u32
  XPLMI_DEVICE_COPY_STATE_INITIATE :: u32
  XPLMI_DEVICE_COPY_STATE_WAIT_DONE :: u32
  XPLMI_PMCDMA_0 :: u32
  XLOADER_SEC_BUF_CLEAR_ERR :: u32
  XLOADER_SEC_BUF_CLEAR_SUCCESS :: u32
  ErrorCode :: "XPlmiStatus_t \<Rightarrow> status"
  XLOADER_EFUSE_PPK0_START_OFFSET :: u32
  XLOADER_EFUSE_PPK2_END_OFFSET :: u32
  XIH_BH_PRAM_ADDR :: u32
  XIH_BH_IMG_ATTRB_OFFSET :: u32
  XIH_BH_IMG_ATTRB_BH_AUTH_MASK :: u32
  XIH_BH_IMG_ATTRB_BH_AUTH_SHIFT :: nat
  XIH_BH_IMG_ATTRB_BH_AUTH_VALUE :: u32
  XPLMI_RTCFG_SECURESTATE_AHWROT :: u32
  XPLMI_RTCFG_SECURESTATE_EMUL_AHWROT :: u32
  XPLMI_RTCFG_SECURESTATE_SHWROT :: u32
  XPLMI_RTCFG_SECURESTATE_EMUL_SHWROT :: u32
  XPLMI_RTCFG_SECURESTATE_NONSECURE :: u32
  XPLMI_RTCFG_SECURESTATE_AHWROT_ADDR :: u32
  XPLMI_RTCFG_SECURESTATE_SHWROT_ADDR :: u32
  XLOADER_EFUSE_SEC_MISC0_OFFSET :: u32
  XLOADER_EFUSE_SEC_DEC_MASK :: u32

section \<open>External collaborators\<close>

text \<open>Every call that leaves \<^verbatim>\<open>xloader_secure.c\<close> is logged, in program order.\<close>

datatype event =
    EvDeviceCopy u64 u64 u32 u32
  | EvDmaXfr u64 u64 u32 u32
  | EvSha3Initialize
  | EvSha3Start
  | EvSha3Update u64 u32
  | EvSha3Finish
  | EvInitNVerifyMem u64 u32
  | EvIn32 u32
  | EvSecureOut32 u32 u32
  | EvGetPlmKeySrc

text \<open>The data mover, the DMA, the SHA3 engine, the memory scrubber, the register
  file and the status packer are not part of the sources. Each is a parameter: its answer
  may depend on everything that happened before (the log), so that two reads of one
  register, or two calls with the same arguments, may differ.\<close>

record platform =
  DeviceCopy :: "event list \<Rightarrow> memory \<Rightarrow> u64 \<Rightarrow> u64 \<Rightarrow> u32 \<Rightarrow> u32 \<Rightarrow> status \<times> memory"
  XPlmi_DmaXfr :: "event list \<Rightarrow> memory \<Rightarrow> u64 \<Rightarrow> u64 \<Rightarrow> u32 \<Rightarrow> u32 \<Rightarrow> status \<times> memory"
  XSecure_Sha3Initialize :: "event list \<Rightarrow> status"
  XSecure_Sha3Start :: "event list \<Rightarrow> status"
  XSecure_Sha3Update64Bit :: "event list \<Rightarrow> u64 \<Rightarrow> u32 \<Rightarrow> status"
  XSecure_Sha3Finish :: "event list \<Rightarrow> status"
  Sha3Digest :: "u8 list \<Rightarrow> u8 list"
  XPlmi_InitNVerifyMem :: "event list \<Rightarrow> memory \<Rightarrow> u64 \<Rightarrow> u32 \<Rightarrow> status \<times> memory"
  XPlmi_UpdateStatus :: "XPlmiStatus_t \<Rightarrow> status \<Rightarrow> status"
  XPlmi_In32 :: "event list \<Rightarrow> u32 \<Rightarrow> u32"
  Xil_SecureOut32 :: "event list \<Rightarrow> u32 \<Rightarrow> u32 \<Rightarrow> status"
  XilPdi_GetPlmKeySrc :: "event list \<Rightarrow> u32"

section \<open>The secure context\<close>

text \<open>The fields of \<^verbatim>\<open>XLoader_SecureParams\<close> that the functions below read or write.
  \<^verbatim>\<open>FlashOfstAddr\<close> is \<^verbatim>\<open>PdiPtr->MetaHdr.FlashOfstAddr\<close> and \<^verbatim>\<open>DataWordOfst\<close> is
  \<^verbatim>\<open>PrtnHdr->DataWordOfst\<close>.\<close>

record XLoader_SecureParams =
  IsNextChunkCopyStarted :: u8
  IsCdo :: u8
  FlashOfstAddr :: u64
  DataWordOfst :: u32
  NextChunkAddr :: u32
  ChunkAddr :: u32
  BlockNum :: u32
  ProcessedLen :: u32
  RemainingDataLen :: u32
  NextBlkAddr :: u64
  PmcDmaInstPtr :: u32
  Sha3Hash :: "u8 list"
  SecureData :: u32
  SecureDataLen :: u32
  DmaFlags :: u16

text \<open>The state a call runs in: the context, the memory, the bytes the SHA3 engine has
  absorbed since its last start, and the log of external calls.\<close>

record lstate = XLoader_SecureParams +
  Mem :: memory
  Sha3Data :: "u8 list"
  Trace :: "event list"

definition read_bytes :: "memory \<Rightarrow> u64 \<Rightarrow> nat \<Rightarrow> u8 list" where
  "read_bytes m a n = map (\<lambda>i. m (a + of_nat i)) [0..<n]"


subsection \<open>Calls into the platform\<close>

text \<open>A call logs itself and takes its status (and the memory it leaves) from the
  platform.\<close>

definition call_DeviceCopy ::
  "platform \<Rightarrow> lstate \<Rightarrow> u64 \<Rightarrow> u64 \<Rightarrow> u32 \<Rightarrow> u32 \<Rightarrow> status \<times> lstate" where
  "call_DeviceCopy p s SrcAddr DestAddr Len Flags =
     (let r = DeviceCopy p (Trace s) (Mem s) SrcAddr DestAddr Len Flags
      in (fst r, s\<lparr>Mem := snd r, Trace := Trace s @ [EvDeviceCopy SrcAddr DestAddr Len Flags]\<rparr>))"

definition call_DmaXfr ::
  "platform \<Rightarrow> lstate \<Rightarrow> u64 \<Rightarrow> u64 \<Rightarrow> u32 \<Rightarrow> u32 \<Rightarrow> status \<times> lstate" where
  "call_DmaXfr p s SrcAddr DestAddr Len Flags =
     (let r = XPlmi_DmaXfr p (Trace s) (Mem s) SrcAddr DestAddr Len Flags
      in (fst r, s\<lparr>Mem := snd r, Trace := Trace s @ [EvDmaXfr SrcAddr DestAddr Len Flags]\<rparr>))"

definition call_InitNVerifyMem ::
  "platform \<Rightarrow> lstate \<Rightarrow> u64 \<Rightarrow> u32 \<Rightarrow> status \<times> lstate" where
  "call_InitNVerifyMem p s Addr Len =
     (let r = XPlmi_InitNVerifyMem p (Trace s) (Mem s) Addr Len
      in (fst r, s\<lparr>Mem := snd r, Trace := Trace s @ [EvInitNVerifyMem Addr Len]\<rparr>))"

text \<open>Modelled from the spec: the hash primitive (\<^verbatim>\<open>xsecure_sha.c\<close> is not among the
  sources), used through start, update(address, length) and finish: a start empties the
  engine, an update absorbs the bytes of the memory range, several updates may precede
  the finish, and the finish yields the digest of everything absorbed. Each step reports
  a status of its own.\<close>

definition call_Sha3Initialize :: "platform \<Rightarrow> lstate \<Rightarrow> status \<times> lstate" where
  "call_Sha3Initialize p s =
     (XSecure_Sha3Initialize p (Trace s), s\<lparr>Trace := Trace s @ [EvSha3Initialize]\<rparr>)"

definition call_Sha3Start :: "platform \<Rightarrow> lstate \<Rightarrow> status \<times> lstate" where
  "call_Sha3Start p s =
     (XSecure_Sha3Start p (Trace s), s\<lparr>Sha3Data := [], Trace := Trace s @ [EvSha3Start]\<rparr>)"

definition call_Sha3Update64Bit ::
  "platform \<Rightarrow> lstate \<Rightarrow> u64 \<Rightarrow> u32 \<Rightarrow> status \<times> lstate" where
  "call_Sha3Update64Bit p s Addr Len =
     (XSecure_Sha3Update64Bit p (Trace s) Addr Len,
      s\<lparr>Sha3Data := Sha3Data s @ read_bytes (Mem s) Addr (unat Len),
        Trace := Trace s @ [EvSha3Update Addr Len]\<rparr>)"

definition call_Sha3Finish :: "platform \<Rightarrow> lstate \<Rightarrow> (status \<times> u8 list) \<times> lstate" where
  "call_Sha3Finish p s =
     ((XSecure_Sha3Finish p (Trace s), Sha3Digest p (Sha3Data s)),
      s\<lparr>Trace := Trace s @ [EvSha3Finish]\<rparr>)"

text \<open>Modelled from the spec: \<^verbatim>\<open>Xil_SMemCmp_CT\<close> (\<^verbatim>\<open>xil_util.c\<close> is not among the
  sources), the constant-time comparison of two buffers over a compare length, which
  reports success exactly for equal contents.\<close>

definition Xil_SMemCmp_CT :: "u8 list \<Rightarrow> u32 \<Rightarrow> u8 list \<Rightarrow> u32 \<Rightarrow> u32 \<Rightarrow> status" where
  "Xil_SMemCmp_CT Src1 Src1Size Src2 Src2Size CmpLen =
     (if take (unat CmpLen) Src1 = take (unat CmpLen) Src2 then XST_SUCCESS else XST_FAILURE)"

text \<open>Modelled from the spec: \<^verbatim>\<open>Xil_SMemCpy\<close> (\<^verbatim>\<open>xil_util.c\<close> is not among the
  sources), which copies the first copy-length bytes of the source over the destination.
  It returns the status and the destination buffer.\<close>

definition Xil_SMemCpy :: "u8 list \<Rightarrow> u32 \<Rightarrow> u8 list \<Rightarrow> u32 \<Rightarrow> u32 \<Rightarrow> status \<times> u8 list" where
  "Xil_SMemCpy Dest DestSize Src SrcSize CopyLen =
     (XST_SUCCESS, take (unat CopyLen) Src @ drop (unat CopyLen) Dest)"

text \<open>Modelled from the spec: the macro \<^verbatim>\<open>XSECURE_TEMPORAL_IMPL(Var, VarTmp, f, ...)\<close>
  (\<^verbatim>\<open>xsecure_utils.h\<close> is not among the sources): a primary and a duplicate invocation
  of \<open>f\<close>, one result in \<^verbatim>\<open>Var\<close> and one in \<^verbatim>\<open>VarTmp\<close>.\<close>

definition XSECURE_TEMPORAL_IMPL :: "('s \<Rightarrow> 'a \<times> 's) \<Rightarrow> 's \<Rightarrow> ('a \<times> 'a) \<times> 's" where
  "XSECURE_TEMPORAL_IMPL f s =
     (let r = f s; r' = f (snd r) in ((fst r, fst r'), snd r'))"

section \<open>The chunk pipeline of \<^verbatim>\<open>xloader_secure.c\<close>\<close>

text \<open>\<^verbatim>\<open>XLoader_StartNextChunkCopy\<close> (lines 302-331).\<close>

definition XLoader_StartNextChunkCopy ::
  "platform \<Rightarrow> plm_consts \<Rightarrow> lstate \<Rightarrow> u32 \<Rightarrow> u64 \<Rightarrow> u32 \<Rightarrow> status \<times> lstate" where
  "XLoader_StartNextChunkCopy p c s TotalLen NextBlkAddr_a ChunkLen =
     (let s1 = (if ChunkAddr s = XPLMI_PMCRAM_CHUNK_MEMORY c
                then s\<lparr>NextChunkAddr := XPLMI_PMCRAM_CHUNK_MEMORY_1 c\<rparr>
                else s\<lparr>NextChunkAddr := XPLMI_PMCRAM_CHUNK_MEMORY c\<rparr>);
          CopyLen = (if TotalLen \<le> ChunkLen then TotalLen else ChunkLen);
          s2 = s1\<lparr>IsNextChunkCopyStarted := TRUE\<rparr>;
          r = call_DeviceCopy p s2 NextBlkAddr_a (ucast (NextChunkAddr s2)) CopyLen
                (XPLMI_DEVICE_COPY_STATE_INITIATE c OR ucast (DmaFlags s2))
      in if fst r \<noteq> XST_SUCCESS
         then (XPlmi_UpdateStatus p XLOADER_ERR_DATA_COPY_FAIL (fst r), snd r)
         else r)"

text \<open>\<^verbatim>\<open>XLoader_SecureChunkCopy\<close> (lines 642-669). \<^verbatim>\<open>Flags\<close> is a \<^verbatim>\<open>u8\<close>.\<close>

definition XLoader_SecureChunkCopy ::
  "platform \<Rightarrow> plm_consts \<Rightarrow> lstate \<Rightarrow> u64 \<Rightarrow> u8 \<Rightarrow> u32 \<Rightarrow> u32 \<Rightarrow> status \<times> lstate" where
  "XLoader_SecureChunkCopy p c s SrcAddr Last BlockSize TotalSize =
     (let Flags = (if IsNextChunkCopyStarted s = TRUE
                   then (ucast (XPLMI_DEVICE_COPY_STATE_WAIT_DONE c) :: u8)
                   else ucast (XPLMI_DEVICE_COPY_STATE_BLK c));
          s1 = (if IsNextChunkCopyStarted s = TRUE
                then s\<lparr>IsNextChunkCopyStarted := FALSE\<rparr> else s);
          r = call_DeviceCopy p s1 SrcAddr (ucast (ChunkAddr s1)) TotalSize
                (ucast Flags OR ucast (DmaFlags s1))
      in if fst r \<noteq> XST_SUCCESS
         then (XPlmi_UpdateStatus p XLOADER_ERR_DATA_COPY_FAIL (fst r), snd r)
         else if Last \<noteq> TRUE \<and> BlockNum (snd r) \<noteq> 0
         then XLoader_StartNextChunkCopy p c (snd r)
                (RemainingDataLen (snd r) - TotalSize) (SrcAddr + ucast TotalSize) BlockSize
         else r)"

text \<open>\<^verbatim>\<open>XLoader_VerifyHashNUpdateNext\<close>, lines 378-428: the digest of the block. The
  result is the status the function leaves with through \<^verbatim>\<open>END\<close> (\<open>Inl\<close>), or the
  local \<^verbatim>\<open>BlkHash\<close> once \<^verbatim>\<open>XSecure_Sha3Finish\<close> has succeeded (\<open>Inr\<close>).\<close>

definition XLoader_VerifyHashNUpdateNext_BlkHash ::
  "platform \<Rightarrow> plm_consts \<Rightarrow> lstate \<Rightarrow> u64 \<Rightarrow> u32 \<Rightarrow> u8 \<Rightarrow> (status + u8 list) \<times> lstate" where
  "XLoader_VerifyHashNUpdateNext_BlkHash p c s DataAddr Size Last =
     (let HashAddr = ChunkAddr s + Size;
          DataLen = (if IsCdo s = TRUE \<and> Last \<noteq> TRUE then Size + XLOADER_SHA3_LEN else Size)
      in if PmcDmaInstPtr s = NULL then (Inl XST_FAILURE, s)
         else
           let r1 = call_Sha3Initialize p s
           in if fst r1 \<noteq> XST_SUCCESS
              then (Inl (XPlmi_UpdateStatus p XLOADER_ERR_PRTN_HASH_CALC_FAIL (fst r1)), snd r1)
              else
                let r2 = call_Sha3Start p (snd r1)
                in if fst r2 \<noteq> XST_SUCCESS
                   then (Inl (XPlmi_UpdateStatus p XLOADER_ERR_PRTN_HASH_CALC_FAIL (fst r2)), snd r2)
                   else
                     let r3 = call_Sha3Update64Bit p (snd r2) DataAddr DataLen
                     in if fst r3 \<noteq> XST_SUCCESS
                        then (Inl (XPlmi_UpdateStatus p XLOADER_ERR_PRTN_HASH_CALC_FAIL (fst r3)), snd r3)
                        else
                          let r4 = (if Last \<noteq> TRUE \<and> IsCdo s \<noteq> TRUE
                                    then call_Sha3Update64Bit p (snd r3) (ucast HashAddr) XLOADER_SHA3_LEN
                                    else r3)
                          in if fst r4 \<noteq> XST_SUCCESS
                             then (Inl (XPlmi_UpdateStatus p XLOADER_ERR_PRTN_HASH_CALC_FAIL (fst r4)), snd r4)
                             else
                               let r5 = call_Sha3Finish p (snd r4)
                               in if fst (fst r5) \<noteq> XST_SUCCESS
                                  then (Inl (XPlmi_UpdateStatus p XLOADER_ERR_PRTN_HASH_CALC_FAIL
                                               (fst (fst r5))), snd r5)
                                  else (Inr (snd (fst r5)), snd r5))"

text \<open>\<^verbatim>\<open>XLoader_VerifyHashNUpdateNext\<close> (lines 375-452): the digest, the redundant
  comparison with \<^verbatim>\<open>SecurePtr->Sha3Hash\<close> (lines 430-442), and the update of the
  expected hash from \<^verbatim>\<open>HashAddr\<close> (lines 444-448). The debug prints have no effect on
  the state.\<close>

definition XLoader_VerifyHashNUpdateNext ::
  "platform \<Rightarrow> plm_consts \<Rightarrow> lstate \<Rightarrow> u64 \<Rightarrow> u32 \<Rightarrow> u8 \<Rightarrow> status \<times> lstate" where
  "XLoader_VerifyHashNUpdateNext p c s DataAddr Size Last =
     (let HashAddr = ChunkAddr s + Size;
          d = XLoader_VerifyHashNUpdateNext_BlkHash p c s DataAddr Size Last;
          s1 = snd d
      in case fst d of
           Inl Status \<Rightarrow> (Status, s1)
         | Inr BlkHash \<Rightarrow>
             let ExpHash = Sha3Hash s1;
                 t = fst (XSECURE_TEMPORAL_IMPL
                           (\<lambda>u. (Xil_SMemCmp_CT ExpHash XLOADER_SHA3_LEN BlkHash
                                    XLOADER_SHA3_LEN XLOADER_SHA3_LEN, u)) ());
                 Status = fst t;
                 StatusTmp = snd t
             in if Status \<noteq> XST_SUCCESS \<or> StatusTmp \<noteq> XST_SUCCESS
                then (XPlmi_UpdateStatus p XLOADER_ERR_PRTN_HASH_COMPARE_FAIL Status, s1)
                else if Last \<noteq> TRUE
                then
                  let r = Xil_SMemCpy ExpHash XLOADER_SHA3_LEN
                            (read_bytes (Mem s1) (ucast HashAddr) (unat XLOADER_SHA3_LEN))
                            XLOADER_SHA3_LEN XLOADER_SHA3_LEN
                  in (fst r, s1\<lparr>Sha3Hash := snd r\<rparr>)
                else (Status, s1))"

text \<open>\<^verbatim>\<open>XLoader_ProcessChecksumPrtn\<close> (lines 540-624), built without
  \<^verbatim>\<open>PLM_PRINT_PERF_CDO_PROCESS\<close>, in three steps. Lines 577-601 first: the
  payload's place and length, and the address the hash is taken at. The result is the
  status the function leaves with through \<^verbatim>\<open>END\<close> (\<open>Inl\<close>) or the local
  \<^verbatim>\<open>DataAddr\<close> (\<open>Inr\<close>).\<close>

definition XLoader_ProcessChecksumPrtn_DataAddr ::
  "platform \<Rightarrow> plm_consts \<Rightarrow> lstate \<Rightarrow> u64 \<Rightarrow> u32 \<Rightarrow> u8 \<Rightarrow> (status + u64) \<times> lstate" where
  "XLoader_ProcessChecksumPrtn_DataAddr p c s DestAddr TotalSize Last =
     (let s1 = s\<lparr>SecureData := ChunkAddr s\<rparr>;
          s2 = (if Last \<noteq> TRUE
                then s1\<lparr>SecureDataLen := TotalSize - XLOADER_SHA3_LEN\<rparr>
                else s1\<lparr>SecureDataLen := TotalSize\<rparr>)
      in if IsCdo s2 = TRUE then (Inr (ucast (ChunkAddr s2)), s2)
         else
           let x = call_DmaXfr p s2 (ucast (SecureData s2)) DestAddr
                     (SecureDataLen s2 div XIH_PRTN_WORD_LEN c) (XPLMI_PMCDMA_0 c)
           in if fst x \<noteq> XST_SUCCESS
              then (Inl (XPlmi_UpdateStatus p XLOADER_ERR_DMA_TRANSFER (fst x)), snd x)
              else (Inr DestAddr, snd x))"

text \<open>Lines 602-608: the verification and the bookkeeping that follows it.
  Modelled from the spec: the macro \<^verbatim>\<open>XSECURE_TEMPORAL_CHECK(END, Status, f, ...)\<close>
  (\<^verbatim>\<open>xsecure_utils.h\<close> is not among the sources), which invokes the hash-chain
  verifier on the payload and leaves through \<^verbatim>\<open>END\<close> unless the status is
  success.\<close>

definition XLoader_ProcessChecksumPrtn_Verify ::
  "platform \<Rightarrow> plm_consts \<Rightarrow> lstate \<Rightarrow> u64 \<Rightarrow> u64 \<Rightarrow> u32 \<Rightarrow> u8 \<Rightarrow> status \<times> lstate" where
  "XLoader_ProcessChecksumPrtn_Verify p c s SrcAddr DataAddr TotalSize Last =
     (let r = XLoader_VerifyHashNUpdateNext p c s DataAddr (SecureDataLen s) Last
      in if fst r \<noteq> XST_SUCCESS then r
         else (fst r, (snd r)\<lparr>NextBlkAddr := SrcAddr + ucast TotalSize,
                              ProcessedLen := TotalSize,
                              BlockNum := BlockNum (snd r) + 1\<rparr>))"

text \<open>The whole function: the source address (lines 557-565), the chunk transfer
  (lines 567-571), and the two steps above. The debug print has no effect on the
  state.\<close>

definition XLoader_ProcessChecksumPrtn ::
  "platform \<Rightarrow> plm_consts \<Rightarrow> lstate \<Rightarrow> u64 \<Rightarrow> u32 \<Rightarrow> u8 \<Rightarrow> status \<times> lstate" where
  "XLoader_ProcessChecksumPrtn p c s DestAddr BlockSize Last =
     (let TotalSize = BlockSize;
          s0 = s\<lparr>ProcessedLen := 0\<rparr>;
          SrcAddr = (if BlockNum s0 = 0
                     then FlashOfstAddr s0 + ucast (DataWordOfst s0) * ucast (XIH_PRTN_WORD_LEN c)
                     else NextBlkAddr s0);
          r = XLoader_SecureChunkCopy p c s0 SrcAddr Last BlockSize TotalSize
      in if fst r \<noteq> XST_SUCCESS then r
         else
           let d = XLoader_ProcessChecksumPrtn_DataAddr p c (snd r) DestAddr TotalSize Last
           in case fst d of
                Inl Status \<Rightarrow> (Status, snd d)
              | Inr DataAddr \<Rightarrow>
                  XLoader_ProcessChecksumPrtn_Verify p c (snd d) SrcAddr DataAddr TotalSize Last)"

text \<open>\<^verbatim>\<open>XLoader_SecureCopy\<close> (lines 245-288). \<^verbatim>\<open>SecurePtr->ProcessPrtn\<close> is a
  function pointer bound at initialisation: the processor is a parameter. The
  \<^verbatim>\<open>while\<close> loop (lines 254-274) runs on fuel, one unit an iteration, and returns the
  locals \<^verbatim>\<open>Status\<close> and \<^verbatim>\<open>Len\<close> it reaches \<^verbatim>\<open>END\<close> with; \<open>None\<close> is a run that
  the fuel did not cover.\<close>

type_synonym processor = "lstate \<Rightarrow> u64 \<Rightarrow> u32 \<Rightarrow> u8 \<Rightarrow> status \<times> lstate"

fun XLoader_SecureCopy_loop ::
  "nat \<Rightarrow> processor \<Rightarrow> lstate \<Rightarrow> status \<Rightarrow> u32 \<Rightarrow> u32 \<Rightarrow> u64 \<Rightarrow> u8
     \<Rightarrow> (status \<times> u32 \<times> lstate) option" where
  "XLoader_SecureCopy_loop 0 ProcessPrtn s Status ChunkLen Len LoadAddr LastChunk = None"
| "XLoader_SecureCopy_loop (Suc n) ProcessPrtn s Status ChunkLen Len LoadAddr LastChunk =
     (if Len > 0 then
        let LastChunk' = (if Len \<le> ChunkLen then TRUE else LastChunk);
            ChunkLen' = (if Len \<le> ChunkLen then Len else ChunkLen);
            s1 = s\<lparr>RemainingDataLen := Len\<rparr>;
            r = ProcessPrtn s1 LoadAddr ChunkLen' LastChunk'
        in if fst r \<noteq> XST_SUCCESS then Some (fst r, Len, snd r)
           else XLoader_SecureCopy_loop n ProcessPrtn
                  ((snd r)\<lparr>ChunkAddr := NextChunkAddr (snd r)\<rparr>) (fst r) ChunkLen'
                  (Len - ProcessedLen (snd r))
                  (LoadAddr + ucast (SecureDataLen (snd r))) LastChunk'
      else Some (Status, Len, s))"

definition XLoader_SecureCopy ::
  "nat \<Rightarrow> platform \<Rightarrow> plm_consts \<Rightarrow> processor \<Rightarrow> lstate \<Rightarrow> u64 \<Rightarrow> u32
     \<Rightarrow> (status \<times> lstate) option" where
  "XLoader_SecureCopy fuel p c ProcessPrtn s DestAddr Size =
     (case XLoader_SecureCopy_loop fuel ProcessPrtn s XST_FAILURE
             (XLOADER_SECURE_CHUNK_SIZE c) Size DestAddr FALSE of
        None \<Rightarrow> None
      | Some (Status, Len, s1) \<Rightarrow>
          if Status \<noteq> XST_SUCCESS
          then
            let x = call_InitNVerifyMem p s1 DestAddr Size
            in if fst x \<noteq> XST_SUCCESS
               then Some (Status OR XLOADER_SEC_BUF_CLEAR_ERR c, snd x)
               else Some (Status OR XLOADER_SEC_BUF_CLEAR_SUCCESS c, snd x)
          else Some (Status, s1))"


section \<open>The root-of-trust classifier of \<^verbatim>\<open>xloader_secure.c\<close>\<close>

text \<open>The two function-local statics \<^verbatim>\<open>SecureStateAHWRoT\<close> and
  \<^verbatim>\<open>SecureStateSHWRoT\<close>, and the log of register accesses.\<close>

record rot_state =
  SecureStateAHWRoT :: u32
  SecureStateSHWRoT :: u32
  RegTrace :: "event list"

text \<open>The statics' initialisers (lines 723 and 747).\<close>

definition rot_initial :: "plm_consts \<Rightarrow> rot_state" where
  "rot_initial c =
     \<lparr>SecureStateAHWRoT = XPLMI_RTCFG_SECURESTATE_AHWROT c,
      SecureStateSHWRoT = XPLMI_RTCFG_SECURESTATE_SHWROT c,
      RegTrace = []\<rparr>"

definition call_In32 :: "platform \<Rightarrow> rot_state \<Rightarrow> u32 \<Rightarrow> u32 \<times> rot_state" where
  "call_In32 p s Addr =
     (XPlmi_In32 p (RegTrace s) Addr, s\<lparr>RegTrace := RegTrace s @ [EvIn32 Addr]\<rparr>)"

definition call_SecureOut32 :: "platform \<Rightarrow> rot_state \<Rightarrow> u32 \<Rightarrow> u32 \<Rightarrow> status \<times> rot_state" where
  "call_SecureOut32 p s Addr Val =
     (Xil_SecureOut32 p (RegTrace s) Addr Val,
      s\<lparr>RegTrace := RegTrace s @ [EvSecureOut32 Addr Val]\<rparr>)"

definition call_GetPlmKeySrc :: "platform \<Rightarrow> rot_state \<Rightarrow> u32 \<times> rot_state" where
  "call_GetPlmKeySrc p s =
     (XilPdi_GetPlmKeySrc p (RegTrace s), s\<lparr>RegTrace := RegTrace s @ [EvGetPlmKeySrc]\<rparr>)"

text \<open>\<^verbatim>\<open>XLoader_CheckNonZeroPpk\<close> (lines 678-706). The \<^verbatim>\<open>for\<close> loop (lines 683-691)
  runs on fuel and returns the locals \<^verbatim>\<open>Status\<close> and \<^verbatim>\<open>Index\<close> it ends with.\<close>

fun XLoader_CheckNonZeroPpk_scan ::
  "nat \<Rightarrow> platform \<Rightarrow> plm_consts \<Rightarrow> rot_state \<Rightarrow> status \<Rightarrow> u32
     \<Rightarrow> (status \<times> u32 \<times> rot_state) option" where
  "XLoader_CheckNonZeroPpk_scan 0 p c s Status Index = None"
| "XLoader_CheckNonZeroPpk_scan (Suc n) p c s Status Index =
     (if Index \<le> XLOADER_EFUSE_PPK2_END_OFFSET c then
        let r = call_In32 p s Index
        in if fst r \<noteq> 0 then Some (XST_SUCCESS, Index, snd r)
           else XLoader_CheckNonZeroPpk_scan n p c (snd r) Status
                  (Index + XIH_PRTN_WORD_LEN c)
      else Some (Status, Index, s))"

text \<open>Lines 692-703: the status as the terminating index decides it.\<close>

definition XLoader_CheckNonZeroPpk_range :: "plm_consts \<Rightarrow> u32 \<Rightarrow> status" where
  "XLoader_CheckNonZeroPpk_range c Index =
     (if Index > XLOADER_EFUSE_PPK2_END_OFFSET c + XIH_PRTN_WORD_LEN c
      then ErrorCode c XLOADER_ERR_GLITCH_DETECTED
      else if Index < XLOADER_EFUSE_PPK0_START_OFFSET c
      then ErrorCode c XLOADER_ERR_GLITCH_DETECTED
      else if Index \<le> XLOADER_EFUSE_PPK2_END_OFFSET c
      then XST_SUCCESS
      else XST_FAILURE)"

definition XLoader_CheckNonZeroPpk ::
  "nat \<Rightarrow> platform \<Rightarrow> plm_consts \<Rightarrow> rot_state \<Rightarrow> (status \<times> rot_state) option" where
  "XLoader_CheckNonZeroPpk fuel p c s =
     (case XLoader_CheckNonZeroPpk_scan fuel p c s XST_FAILURE
             (XLOADER_EFUSE_PPK0_START_OFFSET c) of
        None \<Rightarrow> None
      | Some (Status, Index, s1) \<Rightarrow> Some (XLoader_CheckNonZeroPpk_range c Index, s1))"

text \<open>\<^verbatim>\<open>XLoader_GetAHWRoT\<close> (lines 721-730) and \<^verbatim>\<open>XLoader_GetSHWRoT\<close>
  (lines 745-754). The pointer argument is \<open>None\<close> for \<^verbatim>\<open>NULL\<close>, or the value it
  points to.\<close>

definition XLoader_GetAHWRoT :: "u32 option \<Rightarrow> rot_state \<Rightarrow> u32 \<times> rot_state" where
  "XLoader_GetAHWRoT AHWRoTPtr s =
     (let s1 = (case AHWRoTPtr of None \<Rightarrow> s | Some v \<Rightarrow> s\<lparr>SecureStateAHWRoT := v\<rparr>)
      in (SecureStateAHWRoT s1, s1))"

definition XLoader_GetSHWRoT :: "u32 option \<Rightarrow> rot_state \<Rightarrow> u32 \<times> rot_state" where
  "XLoader_GetSHWRoT SHWRoTPtr s =
     (let s1 = (case SHWRoTPtr of None \<Rightarrow> s | Some v \<Rightarrow> s\<lparr>SecureStateSHWRoT := v\<rparr>)
      in (SecureStateSHWRoT s1, s1))"

text \<open>The macro \<^verbatim>\<open>XSECURE_TEMPORAL_IMPL\<close>, modelled as above, around a callee that
  runs on fuel: \<open>None\<close> when either invocation runs out of fuel.\<close>

definition XSECURE_TEMPORAL_IMPL_fuel ::
  "('s \<Rightarrow> ('a \<times> 's) option) \<Rightarrow> 's \<Rightarrow> (('a \<times> 'a) \<times> 's) option" where
  "XSECURE_TEMPORAL_IMPL_fuel f s =
     (case f s of
        None \<Rightarrow> None
      | Some r \<Rightarrow> (case f (snd r) of
                     None \<Rightarrow> None
                   | Some r' \<Rightarrow> Some ((fst r, fst r'), snd r')))"

text \<open>\<^verbatim>\<open>XLoader_SetSecureState\<close>, lines 787-823: the secure state for authentication.
  The result is the error the function leaves with through \<^verbatim>\<open>END\<close> (\<open>Inl\<close>) or the
  local \<^verbatim>\<open>AHWRoT\<close> (\<open>Inr\<close>).\<close>

definition XLoader_SetSecureState_Auth ::
  "nat \<Rightarrow> platform \<Rightarrow> plm_consts \<Rightarrow> rot_state \<Rightarrow> ((status + u32) \<times> rot_state) option" where
  "XLoader_SetSecureState_Auth fuel p c s =
     (case XSECURE_TEMPORAL_IMPL_fuel (XLoader_CheckNonZeroPpk fuel p c) s of
        None \<Rightarrow> None
      | Some t \<Rightarrow>
          let Status = fst (fst t);
              StatusTmp = snd (fst t);
              r1 = call_In32 p (snd t) (XIH_BH_PRAM_ADDR c + XIH_BH_IMG_ATTRB_OFFSET c);
              IsBhdrAuth = (ucast (drop_bit (XIH_BH_IMG_ATTRB_BH_AUTH_SHIFT c)
                              (fst r1 AND XIH_BH_IMG_ATTRB_BH_AUTH_MASK c)) :: u8);
              r2 = call_In32 p (snd r1) (XIH_BH_PRAM_ADDR c + XIH_BH_IMG_ATTRB_OFFSET c);
              IsBhdrAuthTmp = (ucast (drop_bit (XIH_BH_IMG_ATTRB_BH_AUTH_SHIFT c)
                                 (fst r2 AND XIH_BH_IMG_ATTRB_BH_AUTH_MASK c)) :: u8);
              s2 = snd r2
          in if Status = XST_SUCCESS \<or> StatusTmp = XST_SUCCESS
             then
               if ucast IsBhdrAuth = XIH_BH_IMG_ATTRB_BH_AUTH_VALUE c \<or>
                  ucast IsBhdrAuthTmp = XIH_BH_IMG_ATTRB_BH_AUTH_VALUE c
               then Some (Inl (XPlmi_UpdateStatus p XLOADER_ERR_HWROT_BH_AUTH_NOT_ALLOWED 0), s2)
               else Some (Inr (XPLMI_RTCFG_SECURESTATE_AHWROT c), s2)
             else
               if ucast IsBhdrAuth = XIH_BH_IMG_ATTRB_BH_AUTH_VALUE c \<or>
                  ucast IsBhdrAuthTmp = XIH_BH_IMG_ATTRB_BH_AUTH_VALUE c
               then Some (Inr (XPLMI_RTCFG_SECURESTATE_EMUL_AHWROT c), s2)
               else Some (Inr (XPLMI_RTCFG_SECURESTATE_NONSECURE c), s2))"

text \<open>Lines 835-868: the secure state for encryption, the local \<^verbatim>\<open>SHWRoT\<close>.\<close>

definition XLoader_SetSecureState_Enc ::
  "platform \<Rightarrow> plm_consts \<Rightarrow> rot_state \<Rightarrow> u32 \<times> rot_state" where
  "XLoader_SetSecureState_Enc p c s =
     (let r1 = call_In32 p s (XLOADER_EFUSE_SEC_MISC0_OFFSET c);
          ReadReg = fst r1 AND XLOADER_EFUSE_SEC_DEC_MASK c;
          r2 = call_In32 p (snd r1) (XLOADER_EFUSE_SEC_MISC0_OFFSET c);
          ReadRegTmp = fst r2 AND XLOADER_EFUSE_SEC_DEC_MASK c
      in if ReadReg \<noteq> 0 \<or> ReadRegTmp \<noteq> 0
         then (XPLMI_RTCFG_SECURESTATE_SHWROT c, snd r2)
         else
           let t = XSECURE_TEMPORAL_IMPL (call_GetPlmKeySrc p) (snd r2);
               PlmEncStatus = fst (fst t);
               PlmEncStatusTmp = snd (fst t)
           in if PlmEncStatus \<noteq> 0 \<or> PlmEncStatusTmp \<noteq> 0
              then (XPLMI_RTCFG_SECURESTATE_EMUL_SHWROT c, snd t)
              else (XPLMI_RTCFG_SECURESTATE_NONSECURE c, snd t))"

text \<open>\<^verbatim>\<open>XLoader_SetSecureState\<close> (lines 771-884). The prints have no effect on the
  state.\<close>

definition XLoader_SetSecureState ::
  "nat \<Rightarrow> platform \<Rightarrow> plm_consts \<Rightarrow> rot_state \<Rightarrow> (status \<times> rot_state) option" where
  "XLoader_SetSecureState fuel p c s =
     (case XLoader_SetSecureState_Auth fuel p c s of
        None \<Rightarrow> None
      | Some (Inl Status, s1) \<Rightarrow> Some (Status, s1)
      | Some (Inr AHWRoT, s1) \<Rightarrow>
          let s2 = snd (XLoader_GetAHWRoT (Some AHWRoT) s1);
              w = call_SecureOut32 p s2 (XPLMI_RTCFG_SECURESTATE_AHWROT_ADDR c) AHWRoT
          in if fst w \<noteq> XST_SUCCESS then Some w
             else
               let e = XLoader_SetSecureState_Enc p c (snd w);
                   SHWRoT = fst e;
                   s3 = snd (XLoader_GetSHWRoT (Some SHWRoT) (snd e))
               in Some (call_SecureOut32 p s3 (XPLMI_RTCFG_SECURESTATE_SHWROT_ADDR c) SHWRoT))"

section \<open>Reading the log\<close>

text \<open>The calls to the data mover among the logged events.\<close>

fun is_copy :: "event \<Rightarrow> bool" where
  "is_copy (EvDeviceCopy SrcAddr DestAddr Len Flags) = True"
| "is_copy e = False"


text \<open>A step that calls no data mover and leaves the chunk bookkeeping of the context
  as it is.\<close>

definition quiet :: "lstate \<Rightarrow> lstate \<Rightarrow> bool" where
  "quiet s s' \<longleftrightarrow>
     IsNextChunkCopyStarted s' = IsNextChunkCopyStarted s \<and> IsCdo s' = IsCdo s \<and>
     NextChunkAddr s' = NextChunkAddr s \<and> ChunkAddr s' = ChunkAddr s \<and>
     SecureData s' = SecureData s \<and> SecureDataLen s' = SecureDataLen s \<and>
     DmaFlags s' = DmaFlags s \<and>
     (\<exists>evs. Trace s' = Trace s @ evs \<and> list_all (\<lambda>e. \<not> is_copy e) evs)"


section \<open>A concrete build and platform\<close>

text \<open>One assignment of the constants, and a platform on which every external call
  succeeds, the memory is left as it is, every digest is 48 zero bytes and the registers
  hold the values of a given register file. They instantiate the general theorems
  below.\<close>

definition demo_consts :: plm_consts where
  "demo_consts =
     \<lparr>XLOADER_SECURE_CHUNK_SIZE = 0x100,
      XIH_PRTN_WORD_LEN = 4,
      XPLMI_PMCRAM_CHUNK_MEMORY = 0xF2014000,
      XPLMI_PMCRAM_CHUNK_MEMORY_1 = 0xF2014200,
      XPLMI_DEVICE_COPY_STATE_BLK = 0x00,
      XPLMI_DEVICE_COPY_STATE_INITIATE = 0x20,
      XPLMI_DEVICE_COPY_STATE_WAIT_DONE = 0x40,
      XPLMI_PMCDMA_0 = 0x100,
      XLOADER_SEC_BUF_CLEAR_ERR = 0x8000,
      XLOADER_SEC_BUF_CLEAR_SUCCESS = 0x4000,
      ErrorCode = (\<lambda>e. case e of
          XLOADER_ERR_DATA_COPY_FAIL \<Rightarrow> 0x501
        | XLOADER_ERR_PRTN_HASH_CALC_FAIL \<Rightarrow> 0x502
        | XLOADER_ERR_PRTN_HASH_COMPARE_FAIL \<Rightarrow> 0x503
        | XLOADER_ERR_DMA_TRANSFER \<Rightarrow> 0x504
        | XLOADER_ERR_GLITCH_DETECTED \<Rightarrow> 0x505
        | XLOADER_ERR_HWROT_BH_AUTH_NOT_ALLOWED \<Rightarrow> 0x506),
      XLOADER_EFUSE_PPK0_START_OFFSET = 0xF1250100,
      XLOADER_EFUSE_PPK2_END_OFFSET = 0xF125015C,
      XIH_BH_PRAM_ADDR = 0xF201E000,
      XIH_BH_IMG_ATTRB_OFFSET = 0x24,
      XIH_BH_IMG_ATTRB_BH_AUTH_MASK = 0xC000,
      XIH_BH_IMG_ATTRB_BH_AUTH_SHIFT = 14,
      XIH_BH_IMG_ATTRB_BH_AUTH_VALUE = 3,
      XPLMI_RTCFG_SECURESTATE_AHWROT = 0xA5A5A5A5,
      XPLMI_RTCFG_SECURESTATE_EMUL_AHWROT = 0x5A5A5A5A,
      XPLMI_RTCFG_SECURESTATE_SHWROT = 0x96969696,
      XPLMI_RTCFG_SECURESTATE_EMUL_SHWROT = 0x69696969,
      XPLMI_RTCFG_SECURESTATE_NONSECURE = 0xD2D2D2D2,
      XPLMI_RTCFG_SECURESTATE_AHWROT_ADDR = 0xF201414C,
      XPLMI_RTCFG_SECURESTATE_SHWROT_ADDR = 0xF2014150,
      XLOADER_EFUSE_SEC_MISC0_OFFSET = 0xF12500E4,
      XLOADER_EFUSE_SEC_DEC_MASK = 0xFFFF\<rparr>"

definition demo_platform :: "(u32 \<Rightarrow> u32) \<Rightarrow> platform" where
  "demo_platform regs =
     \<lparr>DeviceCopy = (\<lambda>h m src dst len fl. (XST_SUCCESS, m)),
      XPlmi_DmaXfr = (\<lambda>h m src dst len fl. (XST_SUCCESS, m)),
      XSecure_Sha3Initialize = (\<lambda>h. XST_SUCCESS),
      XSecure_Sha3Start = (\<lambda>h. XST_SUCCESS),
      XSecure_Sha3Update64Bit = (\<lambda>h a l. XST_SUCCESS),
      XSecure_Sha3Finish = (\<lambda>h. XST_SUCCESS),
      Sha3Digest = (\<lambda>bs. replicate 48 0),
      XPlmi_InitNVerifyMem = (\<lambda>h m a l. (XST_SUCCESS, m)),
      XPlmi_UpdateStatus = (\<lambda>e st. push_bit 16 (ErrorCode demo_consts e) OR (st AND 0xFFFF)),
      XPlmi_In32 = (\<lambda>h a. regs a),
      Xil_SecureOut32 = (\<lambda>h a v. XST_SUCCESS),
      XilPdi_GetPlmKeySrc = (\<lambda>h. 0)\<rparr>"

definition zero_regs :: "u32 \<Rightarrow> u32" where
  "zero_regs a = 0"

definition demo_regs_bh :: "u32 \<Rightarrow> u32" where
  "demo_regs_bh a = (if a = 0xF201E024 then 0xC000 else 0)"

definition demo_regs_ppk_bh :: "u32 \<Rightarrow> u32" where
  "demo_regs_ppk_bh a = (if a = 0xF201E024 then 0xC000 else if a = 0xF1250108 then 1 else 0)"

text \<open>The same platform with a data mover that reports failure.\<close>

definition demo_platform_nocopy :: platform where
  "demo_platform_nocopy =
     (demo_platform zero_regs)\<lparr>DeviceCopy := (\<lambda>h m src dst len fl. (XST_FAILURE, m))\<rparr>"

text \<open>A context as \<^verbatim>\<open>XLoader_SecureInit\<close> leaves it (both chunk addresses at the first
  scratch buffer, block number and lengths zero, no copy started) for a partition whose
  data starts at word offset \<open>0x400\<close>, with an expected hash of 48 zero bytes, over a
  memory of zero bytes.\<close>

definition demo_state :: "u8 \<Rightarrow> lstate" where
  "demo_state cdo =
     \<lparr>IsNextChunkCopyStarted = FALSE, IsCdo = cdo, FlashOfstAddr = 0, DataWordOfst = 0x400,
      NextChunkAddr = 0xF2014000, ChunkAddr = 0xF2014000, BlockNum = 0, ProcessedLen = 0,
      RemainingDataLen = 0, NextBlkAddr = 0, PmcDmaInstPtr = 0xF11C0000,
      Sha3Hash = replicate 48 0, SecureData = 0, SecureDataLen = 0, DmaFlags = 0,
      Mem = (\<lambda>a. 0), Sha3Data = [], Trace = []\<rparr>"

text \<open>The same context at the second chunk of a partition with \<open>0x180\<close> bytes left.\<close>

definition demo_state_block1 :: lstate where
  "demo_state_block1 =
     (demo_state FALSE)\<lparr>BlockNum := 1, RemainingDataLen := 0x180, NextBlkAddr := 0x1100\<rparr>"

text \<open>The same context over a memory whose every byte is the low byte of its
  address.\<close>

definition demo_state_bytes :: lstate where
  "demo_state_bytes = (demo_state FALSE)\<lparr>Mem := (\<lambda>a. ucast a)\<rparr>"

section \<open>The root-of-trust mirror and classifier\<close>

lemma GetAHWRoT_query:
  "XLoader_GetAHWRoT None s = (SecureStateAHWRoT s, s)"
  by (simp add: XLoader_GetAHWRoT_def)

text \<open>Claim C10. With a null pointer \<^verbatim>\<open>XLoader_GetAHWRoT\<close> and
  \<^verbatim>\<open>XLoader_GetSHWRoT\<close> only query: the mirror is left as it is and the value
  returned is the value stored last. Before any store the mirrors hold the statics'
  initialisers, Asymmetric-HWRoT and Symmetric-HWRoT, which are not the NonSecure posture
  in any build that keeps the posture codes apart.\<close>

theorem rot_mirror_query_only:
  assumes "XPLMI_RTCFG_SECURESTATE_AHWROT c \<noteq> XPLMI_RTCFG_SECURESTATE_NONSECURE c"
    and "XPLMI_RTCFG_SECURESTATE_SHWROT c \<noteq> XPLMI_RTCFG_SECURESTATE_NONSECURE c"
  shows "XLoader_GetAHWRoT None s = (SecureStateAHWRoT s, s)
       \<and> XLoader_GetSHWRoT None s = (SecureStateSHWRoT s, s)
       \<and> fst (XLoader_GetAHWRoT None (snd (XLoader_GetAHWRoT (Some v) s))) = v
       \<and> fst (XLoader_GetSHWRoT None (snd (XLoader_GetSHWRoT (Some v) s))) = v
       \<and> fst (XLoader_GetAHWRoT None (rot_initial c)) = XPLMI_RTCFG_SECURESTATE_AHWROT c
       \<and> fst (XLoader_GetSHWRoT None (rot_initial c)) = XPLMI_RTCFG_SECURESTATE_SHWROT c
       \<and> fst (XLoader_GetAHWRoT None (rot_initial c)) \<noteq> XPLMI_RTCFG_SECURESTATE_NONSECURE c
       \<and> fst (XLoader_GetSHWRoT None (rot_initial c)) \<noteq> XPLMI_RTCFG_SECURESTATE_NONSECURE c"
  using assms by (simp add: XLoader_GetAHWRoT_def XLoader_GetSHWRoT_def rot_initial_def)

theorem rot_mirror_query_only_witness:
  "fst (XLoader_GetAHWRoT None (rot_initial demo_consts)) = 0xA5A5A5A5
   \<and> fst (XLoader_GetSHWRoT None (rot_initial demo_consts)) = 0x96969696
   \<and> fst (XLoader_GetAHWRoT None (rot_initial demo_consts)) \<noteq> 0xD2D2D2D2
   \<and> fst (XLoader_GetAHWRoT None (snd (XLoader_GetAHWRoT (Some 0x5A5A5A5A) (rot_initial demo_consts)))) = 0x5A5A5A5A"
  using rot_mirror_query_only [of demo_consts "rot_initial demo_consts" "0x5A5A5A5A"]
  by (simp add: demo_consts_def rot_initial_def XLoader_GetAHWRoT_def XLoader_GetSHWRoT_def)


lemma scan_bounds:
  assumes nowrap: "unat (XLOADER_EFUSE_PPK2_END_OFFSET c) + unat (XIH_PRTN_WORD_LEN c) < 2 ^ 32"
  shows "unat Index0 \<le> unat (XLOADER_EFUSE_PPK2_END_OFFSET c) + unat (XIH_PRTN_WORD_LEN c) \<Longrightarrow>
         XLoader_CheckNonZeroPpk_scan n p c s St Index0 = Some (St', Index, s') \<Longrightarrow>
         Index0 \<le> Index \<and>
         unat Index \<le> unat (XLOADER_EFUSE_PPK2_END_OFFSET c) + unat (XIH_PRTN_WORD_LEN c)"
proof (induction n arbitrary: s Index0)
  case 0
  then show ?case by simp
next
  case (Suc n)
  show ?case
  proof (cases "Index0 \<le> XLOADER_EFUSE_PPK2_END_OFFSET c")
    case False
    with Suc.prems show ?thesis by simp
  next
    case True
    then have le: "unat Index0 \<le> unat (XLOADER_EFUSE_PPK2_END_OFFSET c)"
      by (simp add: word_le_nat_alt)
    have sum: "unat (Index0 + XIH_PRTN_WORD_LEN c) = unat Index0 + unat (XIH_PRTN_WORD_LEN c)"
      using le nowrap by (simp add: unat_word_ariths)
    show ?thesis
    proof (cases "fst (call_In32 p s Index0) \<noteq> 0")
      case True
      with \<open>Index0 \<le> _\<close> Suc.prems show ?thesis by (simp add: Let_def)
    next
      case False
      with \<open>Index0 \<le> _\<close> Suc.prems
      have rec: "XLoader_CheckNonZeroPpk_scan n p c (snd (call_In32 p s Index0)) St
                   (Index0 + XIH_PRTN_WORD_LEN c) = Some (St', Index, s')"
        by (simp add: Let_def)
      have "unat (Index0 + XIH_PRTN_WORD_LEN c)
              \<le> unat (XLOADER_EFUSE_PPK2_END_OFFSET c) + unat (XIH_PRTN_WORD_LEN c)"
        using sum le by simp
      from Suc.IH [OF this rec]
      have "Index0 + XIH_PRTN_WORD_LEN c \<le> Index"
        and ub: "unat Index \<le> unat (XLOADER_EFUSE_PPK2_END_OFFSET c) + unat (XIH_PRTN_WORD_LEN c)"
        by simp_all
      then have "unat Index0 + unat (XIH_PRTN_WORD_LEN c) \<le> unat Index"
        using sum by (simp add: word_le_nat_alt)
      then have "Index0 \<le> Index" by (simp add: word_le_nat_alt)
      with ub show ?thesis by simp
    qed
  qed
qed

lemma scan_returns:
  assumes nowrap: "unat (XLOADER_EFUSE_PPK2_END_OFFSET c) + unat (XIH_PRTN_WORD_LEN c) < 2 ^ 32"
    and pos: "0 < XIH_PRTN_WORD_LEN c"
  shows "unat (XLOADER_EFUSE_PPK2_END_OFFSET c) + unat (XIH_PRTN_WORD_LEN c) + 1 \<le> n + unat Index0 \<Longrightarrow>
         0 < n \<Longrightarrow>
         XLoader_CheckNonZeroPpk_scan n p c s St Index0 \<noteq> None"
proof (induction n arbitrary: s Index0)
  case 0
  then show ?case by simp
next
  case (Suc n)
  show ?case
  proof (cases "Index0 \<le> XLOADER_EFUSE_PPK2_END_OFFSET c")
    case False
    then show ?thesis by simp
  next
    case True
    then have le: "unat Index0 \<le> unat (XLOADER_EFUSE_PPK2_END_OFFSET c)"
      by (simp add: word_le_nat_alt)
    have sum: "unat (Index0 + XIH_PRTN_WORD_LEN c) = unat Index0 + unat (XIH_PRTN_WORD_LEN c)"
      using le nowrap by (simp add: unat_word_ariths)
    have wpos: "0 < unat (XIH_PRTN_WORD_LEN c)"
      using pos by (simp add: word_less_nat_alt)
    have n0: "0 < n" using Suc.prems(1) le wpos by linarith
    have "unat (XLOADER_EFUSE_PPK2_END_OFFSET c) + unat (XIH_PRTN_WORD_LEN c) + 1
            \<le> n + unat (Index0 + XIH_PRTN_WORD_LEN c)"
      using Suc.prems(1) sum wpos by linarith
    from Suc.IH [OF this n0] True show ?thesis by (simp add: Let_def)
  qed
qed

text \<open>Claim C4, as amended. The terminating index of the scan decides the status of
  \<^verbatim>\<open>XLoader_CheckNonZeroPpk\<close>: an index more than one word past the end offset, or
  before the start offset, gives the glitch error; an index past the end by at most one
  word gives \<^verbatim>\<open>XST_FAILURE\<close> (no fuse programmed); an index within the start and
  end offsets gives success. A scan that runs without a fault returns, and ends within
  one word past the end offset, so that it reports success or \<^verbatim>\<open>XST_FAILURE\<close>.\<close>

theorem CheckNonZeroPpk_index_classes:
  assumes nowrap: "unat (XLOADER_EFUSE_PPK2_END_OFFSET c) + unat (XIH_PRTN_WORD_LEN c) < 2 ^ 32"
    and pos: "0 < XIH_PRTN_WORD_LEN c"
    and order: "XLOADER_EFUSE_PPK0_START_OFFSET c \<le> XLOADER_EFUSE_PPK2_END_OFFSET c"
  shows
    "(unat (XLOADER_EFUSE_PPK2_END_OFFSET c) + unat (XIH_PRTN_WORD_LEN c) < unat Index
        \<or> Index < XLOADER_EFUSE_PPK0_START_OFFSET c
      \<longrightarrow> XLoader_CheckNonZeroPpk_range c Index = ErrorCode c XLOADER_ERR_GLITCH_DETECTED)
   \<and> (XLOADER_EFUSE_PPK2_END_OFFSET c < Index
        \<and> unat Index \<le> unat (XLOADER_EFUSE_PPK2_END_OFFSET c) + unat (XIH_PRTN_WORD_LEN c)
      \<longrightarrow> XLoader_CheckNonZeroPpk_range c Index = XST_FAILURE)
   \<and> (XLOADER_EFUSE_PPK0_START_OFFSET c \<le> Index \<and> Index \<le> XLOADER_EFUSE_PPK2_END_OFFSET c
      \<longrightarrow> XLoader_CheckNonZeroPpk_range c Index = XST_SUCCESS)
   \<and> (unat (XLOADER_EFUSE_PPK2_END_OFFSET c) + unat (XIH_PRTN_WORD_LEN c) + 1
         \<le> fuel + unat (XLOADER_EFUSE_PPK0_START_OFFSET c)
      \<longrightarrow> (\<exists>St Idx s'.
             XLoader_CheckNonZeroPpk_scan fuel p c s XST_FAILURE
               (XLOADER_EFUSE_PPK0_START_OFFSET c) = Some (St, Idx, s')
           \<and> XLoader_CheckNonZeroPpk fuel p c s = Some (XLoader_CheckNonZeroPpk_range c Idx, s')
           \<and> XLOADER_EFUSE_PPK0_START_OFFSET c \<le> Idx
           \<and> unat Idx \<le> unat (XLOADER_EFUSE_PPK2_END_OFFSET c) + unat (XIH_PRTN_WORD_LEN c)
           \<and> XLoader_CheckNonZeroPpk_range c Idx \<in> {XST_SUCCESS, XST_FAILURE}))"
proof -
  let ?E = "XLOADER_EFUSE_PPK2_END_OFFSET c"
  let ?W = "XIH_PRTN_WORD_LEN c"
  let ?S = "XLOADER_EFUSE_PPK0_START_OFFSET c"
  have sum: "unat (?E + ?W) = unat ?E + unat ?W"
    using nowrap by (simp add: unat_word_ariths)
  have SE: "unat ?S \<le> unat ?E" using order by (simp add: word_le_nat_alt)
  have A: "unat ?E + unat ?W < unat Index \<or> Index < ?S
      \<longrightarrow> XLoader_CheckNonZeroPpk_range c Index = ErrorCode c XLOADER_ERR_GLITCH_DETECTED"
    by (auto simp: XLoader_CheckNonZeroPpk_range_def word_less_nat_alt word_le_nat_alt sum)
  have B: "?E < Index \<and> unat Index \<le> unat ?E + unat ?W
      \<longrightarrow> XLoader_CheckNonZeroPpk_range c Index = XST_FAILURE"
    using SE by (auto simp: XLoader_CheckNonZeroPpk_range_def word_less_nat_alt word_le_nat_alt sum)
  have C: "?S \<le> Index \<and> Index \<le> ?E
      \<longrightarrow> XLoader_CheckNonZeroPpk_range c Index = XST_SUCCESS"
    by (auto simp: XLoader_CheckNonZeroPpk_range_def word_less_nat_alt word_le_nat_alt sum)
  have D: "\<exists>St Idx s'.
             XLoader_CheckNonZeroPpk_scan fuel p c s XST_FAILURE ?S = Some (St, Idx, s')
           \<and> XLoader_CheckNonZeroPpk fuel p c s = Some (XLoader_CheckNonZeroPpk_range c Idx, s')
           \<and> ?S \<le> Idx \<and> unat Idx \<le> unat ?E + unat ?W
           \<and> XLoader_CheckNonZeroPpk_range c Idx \<in> {XST_SUCCESS, XST_FAILURE}"
    if fuel: "unat ?E + unat ?W + 1 \<le> fuel + unat ?S"
  proof -
    have "0 < fuel" using fuel SE pos by (cases fuel) (auto simp: word_less_nat_alt)
    from scan_returns [OF nowrap pos fuel this]
    have "XLoader_CheckNonZeroPpk_scan fuel p c s XST_FAILURE ?S \<noteq> None" .
    then obtain St Idx s' where
      scan: "XLoader_CheckNonZeroPpk_scan fuel p c s XST_FAILURE ?S = Some (St, Idx, s')"
      by (cases "XLoader_CheckNonZeroPpk_scan fuel p c s XST_FAILURE ?S") auto
    have "unat ?S \<le> unat ?E + unat ?W" using SE by simp
    from scan_bounds [OF nowrap this scan]
    have b: "?S \<le> Idx" "unat Idx \<le> unat ?E + unat ?W" by simp_all
    have "XLoader_CheckNonZeroPpk_range c Idx \<in> {XST_SUCCESS, XST_FAILURE}"
      using b by (auto simp: XLoader_CheckNonZeroPpk_range_def word_less_nat_alt word_le_nat_alt sum)
    with scan b show ?thesis by (simp add: XLoader_CheckNonZeroPpk_def)
  qed
  from A B C D show ?thesis by blast
qed

theorem CheckNonZeroPpk_index_classes_witness:
  "XLoader_CheckNonZeroPpk_range demo_consts 0xF1250164 = 0x505
   \<and> XLoader_CheckNonZeroPpk_range demo_consts 0xF12500FC = 0x505
   \<and> XLoader_CheckNonZeroPpk_range demo_consts 0xF1250160 = XST_FAILURE
   \<and> XLoader_CheckNonZeroPpk_range demo_consts 0xF1250100 = XST_SUCCESS
   \<and> (\<exists>St Idx s'.
         XLoader_CheckNonZeroPpk_scan 97 (demo_platform zero_regs) demo_consts
           (rot_initial demo_consts) XST_FAILURE 0xF1250100 = Some (St, Idx, s')
       \<and> XLoader_CheckNonZeroPpk 97 (demo_platform zero_regs) demo_consts
           (rot_initial demo_consts) = Some (XLoader_CheckNonZeroPpk_range demo_consts Idx, s'))"
proof -
  have c: "unat (XLOADER_EFUSE_PPK2_END_OFFSET demo_consts)
             + unat (XIH_PRTN_WORD_LEN demo_consts) < 2 ^ 32"
    "0 < XIH_PRTN_WORD_LEN demo_consts"
    "XLOADER_EFUSE_PPK0_START_OFFSET demo_consts \<le> XLOADER_EFUSE_PPK2_END_OFFSET demo_consts"
    by (simp_all add: demo_consts_def)
  note t = CheckNonZeroPpk_index_classes [OF c]
  have 1: "XLoader_CheckNonZeroPpk_range demo_consts 0xF1250164 = 0x505"
    using t [of "0xF1250164"] by (simp add: demo_consts_def)
  have 2: "XLoader_CheckNonZeroPpk_range demo_consts 0xF12500FC = 0x505"
    using t [of "0xF12500FC"] by (simp add: demo_consts_def)
  have 3: "XLoader_CheckNonZeroPpk_range demo_consts 0xF1250160 = XST_FAILURE"
    using t [of "0xF1250160"] by (simp add: demo_consts_def)
  have 4: "XLoader_CheckNonZeroPpk_range demo_consts 0xF1250100 = XST_SUCCESS"
    using t [of "0xF1250100"] by (simp add: demo_consts_def)
  have 5: "\<exists>St Idx s'.
         XLoader_CheckNonZeroPpk_scan 97 (demo_platform zero_regs) demo_consts
           (rot_initial demo_consts) XST_FAILURE 0xF1250100 = Some (St, Idx, s')
       \<and> XLoader_CheckNonZeroPpk 97 (demo_platform zero_regs) demo_consts
           (rot_initial demo_consts) = Some (XLoader_CheckNonZeroPpk_range demo_consts Idx, s')"
    using t [of 0 97 "demo_platform zero_regs" "rot_initial demo_consts"]
    by (simp add: demo_consts_def) blast
  from 1 2 3 4 5 show ?thesis by blast
qed

text \<open>Claim C4 as stated fails: over fuses that are all zero the scan ends one word
  past the end offset, outside the range of the start and end offsets, and the function
  returns \<^verbatim>\<open>XST_FAILURE\<close>, not the glitch error.\<close>

theorem CheckNonZeroPpk_one_word_past_end:
  "map_option fst (XLoader_CheckNonZeroPpk 97 (demo_platform zero_regs) demo_consts
       (rot_initial demo_consts)) = Some XST_FAILURE
   \<and> map_option (fst \<circ> snd) (XLoader_CheckNonZeroPpk_scan 97 (demo_platform zero_regs)
       demo_consts (rot_initial demo_consts) XST_FAILURE
       (XLOADER_EFUSE_PPK0_START_OFFSET demo_consts)) = Some 0xF1250160
   \<and> \<not> (XLOADER_EFUSE_PPK0_START_OFFSET demo_consts \<le> (0xF1250160 :: u32)
        \<and> (0xF1250160 :: u32) \<le> XLOADER_EFUSE_PPK2_END_OFFSET demo_consts)
   \<and> XST_FAILURE \<noteq> ErrorCode demo_consts XLOADER_ERR_GLITCH_DETECTED"
  by code_simp


lemma SetSecureState_Auth_eq:
  assumes "XSECURE_TEMPORAL_IMPL_fuel (XLoader_CheckNonZeroPpk fuel p c) s
             = Some ((Status, StatusTmp), s1)"
  shows "XLoader_SetSecureState_Auth fuel p c s =
     (let bh = XIH_BH_PRAM_ADDR c + XIH_BH_IMG_ATTRB_OFFSET c;
          IsBhdrAuth = (ucast (drop_bit (XIH_BH_IMG_ATTRB_BH_AUTH_SHIFT c)
                          (XPlmi_In32 p (RegTrace s1) bh AND XIH_BH_IMG_ATTRB_BH_AUTH_MASK c)) :: u8);
          IsBhdrAuthTmp = (ucast (drop_bit (XIH_BH_IMG_ATTRB_BH_AUTH_SHIFT c)
                          (XPlmi_In32 p (RegTrace s1 @ [EvIn32 bh]) bh
                             AND XIH_BH_IMG_ATTRB_BH_AUTH_MASK c)) :: u8);
          hdr = (ucast IsBhdrAuth = XIH_BH_IMG_ATTRB_BH_AUTH_VALUE c \<or>
                 ucast IsBhdrAuthTmp = XIH_BH_IMG_ATTRB_BH_AUTH_VALUE c);
          s2 = s1\<lparr>RegTrace := RegTrace s1 @ [EvIn32 bh, EvIn32 bh]\<rparr>
      in if Status = XST_SUCCESS \<or> StatusTmp = XST_SUCCESS
         then if hdr
              then Some (Inl (XPlmi_UpdateStatus p XLOADER_ERR_HWROT_BH_AUTH_NOT_ALLOWED 0), s2)
              else Some (Inr (XPLMI_RTCFG_SECURESTATE_AHWROT c), s2)
         else if hdr then Some (Inr (XPLMI_RTCFG_SECURESTATE_EMUL_AHWROT c), s2)
              else Some (Inr (XPLMI_RTCFG_SECURESTATE_NONSECURE c), s2))"
  using assms by (simp add: XLoader_SetSecureState_Auth_def Let_def call_In32_def)

lemma SetSecureState_Enc_eq:
  "XLoader_SetSecureState_Enc p c s =
     (let m = XLOADER_EFUSE_SEC_MISC0_OFFSET c;
          h = RegTrace s;
          ReadReg = XPlmi_In32 p h m AND XLOADER_EFUSE_SEC_DEC_MASK c;
          ReadRegTmp = XPlmi_In32 p (h @ [EvIn32 m]) m AND XLOADER_EFUSE_SEC_DEC_MASK c;
          PlmEncStatus = XilPdi_GetPlmKeySrc p (h @ [EvIn32 m, EvIn32 m]);
          PlmEncStatusTmp = XilPdi_GetPlmKeySrc p (h @ [EvIn32 m, EvIn32 m, EvGetPlmKeySrc])
      in if ReadReg \<noteq> 0 \<or> ReadRegTmp \<noteq> 0
         then (XPLMI_RTCFG_SECURESTATE_SHWROT c, s\<lparr>RegTrace := h @ [EvIn32 m, EvIn32 m]\<rparr>)
         else if PlmEncStatus \<noteq> 0 \<or> PlmEncStatusTmp \<noteq> 0
         then (XPLMI_RTCFG_SECURESTATE_EMUL_SHWROT c,
               s\<lparr>RegTrace := h @ [EvIn32 m, EvIn32 m, EvGetPlmKeySrc, EvGetPlmKeySrc]\<rparr>)
         else (XPLMI_RTCFG_SECURESTATE_NONSECURE c,
               s\<lparr>RegTrace := h @ [EvIn32 m, EvIn32 m, EvGetPlmKeySrc, EvGetPlmKeySrc]\<rparr>))"
  by (simp add: XLoader_SetSecureState_Enc_def Let_def call_In32_def call_GetPlmKeySrc_def
      XSECURE_TEMPORAL_IMPL_def)

lemma SetSecureState_decision_after_scans:
  assumes scans: "XSECURE_TEMPORAL_IMPL_fuel (XLoader_CheckNonZeroPpk fuel p c) s
                    = Some ((Status, StatusTmp), s1)"
    and bh: "bh = XIH_BH_PRAM_ADDR c + XIH_BH_IMG_ATTRB_OFFSET c"
    and auth: "IsBhdrAuth = (ucast (drop_bit (XIH_BH_IMG_ATTRB_BH_AUTH_SHIFT c)
                 (XPlmi_In32 p (RegTrace s1) bh AND XIH_BH_IMG_ATTRB_BH_AUTH_MASK c)) :: u8)"
    and authtmp: "IsBhdrAuthTmp = (ucast (drop_bit (XIH_BH_IMG_ATTRB_BH_AUTH_SHIFT c)
                 (XPlmi_In32 p (RegTrace s1 @ [EvIn32 bh]) bh
                    AND XIH_BH_IMG_ATTRB_BH_AUTH_MASK c)) :: u8)"
    and fuse: "fuse = (Status = XST_SUCCESS \<or> StatusTmp = XST_SUCCESS)"
    and hdr: "hdr = (ucast IsBhdrAuth = XIH_BH_IMG_ATTRB_BH_AUTH_VALUE c \<or>
                     ucast IsBhdrAuthTmp = XIH_BH_IMG_ATTRB_BH_AUTH_VALUE c)"
    and AHWRoT: "AHWRoT = (if fuse then XPLMI_RTCFG_SECURESTATE_AHWROT c
                           else if hdr then XPLMI_RTCFG_SECURESTATE_EMUL_AHWROT c
                           else XPLMI_RTCFG_SECURESTATE_NONSECURE c)"
    and h: "h = RegTrace s1 @ [EvIn32 bh, EvIn32 bh,
                  EvSecureOut32 (XPLMI_RTCFG_SECURESTATE_AHWROT_ADDR c) AHWRoT]"
    and m: "m = XLOADER_EFUSE_SEC_MISC0_OFFSET c"
    and SHWRoT: "SHWRoT =
          (if XPlmi_In32 p h m AND XLOADER_EFUSE_SEC_DEC_MASK c \<noteq> 0 \<or>
              XPlmi_In32 p (h @ [EvIn32 m]) m AND XLOADER_EFUSE_SEC_DEC_MASK c \<noteq> 0
           then XPLMI_RTCFG_SECURESTATE_SHWROT c
           else if XilPdi_GetPlmKeySrc p (h @ [EvIn32 m, EvIn32 m]) \<noteq> 0 \<or>
                   XilPdi_GetPlmKeySrc p (h @ [EvIn32 m, EvIn32 m, EvGetPlmKeySrc]) \<noteq> 0
           then XPLMI_RTCFG_SECURESTATE_EMUL_SHWROT c
           else XPLMI_RTCFG_SECURESTATE_NONSECURE c)"
  shows "\<exists>st s'. XLoader_SetSecureState fuel p c s = Some (st, s')
     \<and> (fuse \<and> hdr \<longrightarrow>
          st = XPlmi_UpdateStatus p XLOADER_ERR_HWROT_BH_AUTH_NOT_ALLOWED 0
          \<and> SecureStateAHWRoT s' = SecureStateAHWRoT s1
          \<and> SecureStateSHWRoT s' = SecureStateSHWRoT s1
          \<and> RegTrace s' = RegTrace s1 @ [EvIn32 bh, EvIn32 bh])
     \<and> (\<not> (fuse \<and> hdr) \<longrightarrow>
          SecureStateAHWRoT s' = AHWRoT
          \<and> take (length h) (RegTrace s') = h
          \<and> (Xil_SecureOut32 p (RegTrace s1 @ [EvIn32 bh, EvIn32 bh])
                (XPLMI_RTCFG_SECURESTATE_AHWROT_ADDR c) AHWRoT = XST_SUCCESS \<longrightarrow>
              SecureStateSHWRoT s' = SHWRoT
              \<and> last (RegTrace s') = EvSecureOut32 (XPLMI_RTCFG_SECURESTATE_SHWROT_ADDR c) SHWRoT))"
proof -
  let ?s2 = "s1\<lparr>RegTrace := RegTrace s1 @ [EvIn32 bh, EvIn32 bh]\<rparr>"
  have A: "XLoader_SetSecureState_Auth fuel p c s =
      (if fuse \<and> hdr
       then Some (Inl (XPlmi_UpdateStatus p XLOADER_ERR_HWROT_BH_AUTH_NOT_ALLOWED 0), ?s2)
       else Some (Inr AHWRoT, ?s2))"
    unfolding SetSecureState_Auth_eq [OF scans] Let_def
    using bh auth authtmp fuse hdr AHWRoT by simp
  show ?thesis
  proof (cases "fuse \<and> hdr")
    case True
    then show ?thesis
      unfolding XLoader_SetSecureState_def A by simp
  next
    case False
    let ?s3 = "s1\<lparr>SecureStateAHWRoT := AHWRoT, RegTrace := h\<rparr>"
    have A': "XLoader_SetSecureState_Auth fuel p c s = Some (Inr AHWRoT, ?s2)"
      by (simp only: A False if_False)
    have w: "call_SecureOut32 p (snd (XLoader_GetAHWRoT (Some AHWRoT) ?s2))
               (XPLMI_RTCFG_SECURESTATE_AHWROT_ADDR c) AHWRoT
             = (Xil_SecureOut32 p (RegTrace s1 @ [EvIn32 bh, EvIn32 bh])
                  (XPLMI_RTCFG_SECURESTATE_AHWROT_ADDR c) AHWRoT, ?s3)"
      by (simp add: call_SecureOut32_def XLoader_GetAHWRoT_def h)
    have e: "fst (XLoader_SetSecureState_Enc p c ?s3) = SHWRoT"
      unfolding SetSecureState_Enc_eq Let_def using SHWRoT m by simp
    have et: "take (length h)
                (RegTrace (snd (XLoader_SetSecureState_Enc p c ?s3))) = h"
         "SecureStateAHWRoT (snd (XLoader_SetSecureState_Enc p c ?s3)) = AHWRoT"
         "length h \<le> length (RegTrace (snd (XLoader_SetSecureState_Enc p c ?s3)))"
      unfolding SetSecureState_Enc_eq Let_def by simp_all
    show ?thesis
    proof (cases "Xil_SecureOut32 p (RegTrace s1 @ [EvIn32 bh, EvIn32 bh])
                    (XPLMI_RTCFG_SECURESTATE_AHWROT_ADDR c) AHWRoT = XST_SUCCESS")
      case True
      let ?e = "snd (XLoader_SetSecureState_Enc p c ?s3)"
      have r: "XLoader_SetSecureState fuel p c s =
                 Some (call_SecureOut32 p (snd (XLoader_GetSHWRoT (Some SHWRoT) ?e))
                         (XPLMI_RTCFG_SECURESTATE_SHWROT_ADDR c) SHWRoT)"
        using True by (simp add: XLoader_SetSecureState_def A' w Let_def e)
      show ?thesis
        unfolding r using False True et
        by (simp add: call_SecureOut32_def XLoader_GetSHWRoT_def)
    next
      case notok: False
      have r: "XLoader_SetSecureState fuel p c s =
                 Some (Xil_SecureOut32 p (RegTrace s1 @ [EvIn32 bh, EvIn32 bh])
                         (XPLMI_RTCFG_SECURESTATE_AHWROT_ADDR c) AHWRoT, ?s3)"
        using notok by (simp add: XLoader_SetSecureState_def A' w Let_def)
      show ?thesis
        unfolding r using False notok by auto
    qed
  qed
qed


lemma CheckNonZeroPpk_returns:
  assumes nowrap: "unat (XLOADER_EFUSE_PPK2_END_OFFSET c) + unat (XIH_PRTN_WORD_LEN c) < 2 ^ 32"
    and pos: "0 < XIH_PRTN_WORD_LEN c"
    and order: "XLOADER_EFUSE_PPK0_START_OFFSET c \<le> XLOADER_EFUSE_PPK2_END_OFFSET c"
    and fuel: "unat (XLOADER_EFUSE_PPK2_END_OFFSET c) + unat (XIH_PRTN_WORD_LEN c) + 1
                 \<le> fuel + unat (XLOADER_EFUSE_PPK0_START_OFFSET c)"
  shows "\<exists>St s'. XLoader_CheckNonZeroPpk fuel p c s = Some (St, s')"
proof -
  have "unat (XLOADER_EFUSE_PPK0_START_OFFSET c) \<le> unat (XLOADER_EFUSE_PPK2_END_OFFSET c)"
    using order by (simp add: word_le_nat_alt)
  with fuel pos have "0 < fuel"
    by (cases fuel) (auto simp: word_less_nat_alt)
  from scan_returns [OF nowrap pos fuel this]
  have "XLoader_CheckNonZeroPpk_scan fuel p c s XST_FAILURE
          (XLOADER_EFUSE_PPK0_START_OFFSET c) \<noteq> None" .
  then show ?thesis
    by (auto simp: XLoader_CheckNonZeroPpk_def)
qed

text \<open>Claim C2. With \<open>fuse\<close> the outcome of the redundant scan (either invocation
  reports success) and \<open>hdr\<close> the boot-header field (either read has the
  authentication value): \<open>fuse\<close> and \<open>hdr\<close> together make
  \<^verbatim>\<open>XLoader_SetSecureState\<close> fail with the error built from
  \<^verbatim>\<open>XLOADER_ERR_HWROT_BH_AUTH_NOT_ALLOWED\<close>, with both mirrors untouched; otherwise
  the authentication posture stored is Asymmetric-HWRoT for \<open>fuse\<close>,
  Emulated-Asymmetric-HWRoT for \<open>hdr\<close> alone and NonSecure for neither. The redundant scan
  returns in every build whose scan range does not wrap around, given fuel for the range.
  Once the authentication posture is written, the encryption posture is decided by the decrypt-only
  fuse reads and the PLM key source alone, by one rule for all three authentication
  postures.\<close>


theorem SetSecureState_decision:
  assumes nowrap: "unat (XLOADER_EFUSE_PPK2_END_OFFSET c) + unat (XIH_PRTN_WORD_LEN c) < 2 ^ 32"
    and pos: "0 < XIH_PRTN_WORD_LEN c"
    and order: "XLOADER_EFUSE_PPK0_START_OFFSET c \<le> XLOADER_EFUSE_PPK2_END_OFFSET c"
    and fuel: "unat (XLOADER_EFUSE_PPK2_END_OFFSET c) + unat (XIH_PRTN_WORD_LEN c) + 1
                 \<le> fuel + unat (XLOADER_EFUSE_PPK0_START_OFFSET c)"
  shows "\<exists>Status StatusTmp s1.
     XSECURE_TEMPORAL_IMPL_fuel (XLoader_CheckNonZeroPpk fuel p c) s
       = Some ((Status, StatusTmp), s1)
   \<and> (let bh = XIH_BH_PRAM_ADDR c + XIH_BH_IMG_ATTRB_OFFSET c;
           IsBhdrAuth = (ucast (drop_bit (XIH_BH_IMG_ATTRB_BH_AUTH_SHIFT c)
              (XPlmi_In32 p (RegTrace s1) bh AND XIH_BH_IMG_ATTRB_BH_AUTH_MASK c)) :: u8);
           IsBhdrAuthTmp = (ucast (drop_bit (XIH_BH_IMG_ATTRB_BH_AUTH_SHIFT c)
              (XPlmi_In32 p (RegTrace s1 @ [EvIn32 bh]) bh
                 AND XIH_BH_IMG_ATTRB_BH_AUTH_MASK c)) :: u8);
           fuse = (Status = XST_SUCCESS \<or> StatusTmp = XST_SUCCESS);
           hdr = (ucast IsBhdrAuth = XIH_BH_IMG_ATTRB_BH_AUTH_VALUE c \<or>
                  ucast IsBhdrAuthTmp = XIH_BH_IMG_ATTRB_BH_AUTH_VALUE c);
           AHWRoT = (if fuse then XPLMI_RTCFG_SECURESTATE_AHWROT c
                     else if hdr then XPLMI_RTCFG_SECURESTATE_EMUL_AHWROT c
                     else XPLMI_RTCFG_SECURESTATE_NONSECURE c);
           h = RegTrace s1 @ [EvIn32 bh, EvIn32 bh,
                 EvSecureOut32 (XPLMI_RTCFG_SECURESTATE_AHWROT_ADDR c) AHWRoT];
           m = XLOADER_EFUSE_SEC_MISC0_OFFSET c;
           SHWRoT =
             (if XPlmi_In32 p h m AND XLOADER_EFUSE_SEC_DEC_MASK c \<noteq> 0 \<or>
                 XPlmi_In32 p (h @ [EvIn32 m]) m AND XLOADER_EFUSE_SEC_DEC_MASK c \<noteq> 0
              then XPLMI_RTCFG_SECURESTATE_SHWROT c
              else if XilPdi_GetPlmKeySrc p (h @ [EvIn32 m, EvIn32 m]) \<noteq> 0 \<or>
                      XilPdi_GetPlmKeySrc p (h @ [EvIn32 m, EvIn32 m, EvGetPlmKeySrc]) \<noteq> 0
              then XPLMI_RTCFG_SECURESTATE_EMUL_SHWROT c
              else XPLMI_RTCFG_SECURESTATE_NONSECURE c)
       in \<exists>st s'. XLoader_SetSecureState fuel p c s = Some (st, s')
          \<and> (fuse \<and> hdr \<longrightarrow>
               st = XPlmi_UpdateStatus p XLOADER_ERR_HWROT_BH_AUTH_NOT_ALLOWED 0
               \<and> SecureStateAHWRoT s' = SecureStateAHWRoT s1
               \<and> SecureStateSHWRoT s' = SecureStateSHWRoT s1
               \<and> RegTrace s' = RegTrace s1 @ [EvIn32 bh, EvIn32 bh])
          \<and> (\<not> (fuse \<and> hdr) \<longrightarrow>
               SecureStateAHWRoT s' = AHWRoT
               \<and> take (length h) (RegTrace s') = h
               \<and> (Xil_SecureOut32 p (RegTrace s1 @ [EvIn32 bh, EvIn32 bh])
                     (XPLMI_RTCFG_SECURESTATE_AHWROT_ADDR c) AHWRoT = XST_SUCCESS \<longrightarrow>
                   SecureStateSHWRoT s' = SHWRoT
                   \<and> last (RegTrace s')
                       = EvSecureOut32 (XPLMI_RTCFG_SECURESTATE_SHWROT_ADDR c) SHWRoT)))"
proof -
  from CheckNonZeroPpk_returns [OF nowrap pos order fuel]
  obtain St s0 where a: "XLoader_CheckNonZeroPpk fuel p c s = Some (St, s0)"
    by blast
  from CheckNonZeroPpk_returns [OF nowrap pos order fuel]
  obtain StTmp s1 where b: "XLoader_CheckNonZeroPpk fuel p c s0 = Some (StTmp, s1)"
    by blast
  have scans: "XSECURE_TEMPORAL_IMPL_fuel (XLoader_CheckNonZeroPpk fuel p c) s
                 = Some ((St, StTmp), s1)"
    by (simp add: XSECURE_TEMPORAL_IMPL_fuel_def a b)
  note inst = SetSecureState_decision_after_scans
    [OF scans refl refl refl refl refl refl refl refl refl]
  show ?thesis
    unfolding Let_def
    by (rule exI [where x = St], rule exI [where x = StTmp], rule exI [where x = s1],
        rule conjI, rule scans, rule inst)
qed

theorem SetSecureState_decision_witness:
  "map_option fst (XLoader_SetSecureState 97 (demo_platform demo_regs_ppk_bh) demo_consts
       (rot_initial demo_consts)) = Some 0x5060000
   \<and> map_option (SecureStateAHWRoT \<circ> snd)
       (XLoader_SetSecureState 97 (demo_platform demo_regs_bh) demo_consts
          (rot_initial demo_consts)) = Some 0x5A5A5A5A
   \<and> map_option (SecureStateSHWRoT \<circ> snd)
       (XLoader_SetSecureState 97 (demo_platform demo_regs_bh) demo_consts
          (rot_initial demo_consts)) = Some 0xD2D2D2D2"
proof -
  let ?P = "demo_platform demo_regs_ppk_bh"
  let ?Q = "demo_platform demo_regs_bh"
  let ?X = "XSECURE_TEMPORAL_IMPL_fuel (XLoader_CheckNonZeroPpk 97 ?P demo_consts)
              (rot_initial demo_consts)"
  let ?Y = "XSECURE_TEMPORAL_IMPL_fuel (XLoader_CheckNonZeroPpk 97 ?Q demo_consts)
              (rot_initial demo_consts)"
  have c: "unat (XLOADER_EFUSE_PPK2_END_OFFSET demo_consts)
             + unat (XIH_PRTN_WORD_LEN demo_consts) < 2 ^ 32"
    "0 < XIH_PRTN_WORD_LEN demo_consts"
    "XLOADER_EFUSE_PPK0_START_OFFSET demo_consts \<le> XLOADER_EFUSE_PPK2_END_OFFSET demo_consts"
    "unat (XLOADER_EFUSE_PPK2_END_OFFSET demo_consts) + unat (XIH_PRTN_WORD_LEN demo_consts) + 1
       \<le> 97 + unat (XLOADER_EFUSE_PPK0_START_OFFSET demo_consts)"
    by (simp_all add: demo_consts_def)
  have x: "map_option fst ?X = Some (XST_SUCCESS, XST_SUCCESS)"
    by code_simp
  have y: "map_option fst ?Y = Some (XST_FAILURE, XST_FAILURE)"
    by code_simp
  from SetSecureState_decision [OF c, of ?P "rot_initial demo_consts"]
  obtain St StTmp s1 where
    sc: "?X = Some ((St, StTmp), s1)" and
    dec: "\<exists>st s'. XLoader_SetSecureState 97 ?P demo_consts (rot_initial demo_consts)
                    = Some (st, s')
          \<and> ((St = XST_SUCCESS \<or> StTmp = XST_SUCCESS) \<longrightarrow>
               st = XPlmi_UpdateStatus ?P XLOADER_ERR_HWROT_BH_AUTH_NOT_ALLOWED 0)"
    by (auto simp: Let_def demo_platform_def demo_consts_def demo_regs_ppk_bh_def)
  from sc x have "St = XST_SUCCESS" by simp
  with dec have 1: "map_option fst (XLoader_SetSecureState 97 ?P demo_consts
                      (rot_initial demo_consts)) = Some 0x5060000"
    by (auto simp: demo_platform_def demo_consts_def)
  from SetSecureState_decision [OF c, of ?Q "rot_initial demo_consts"]
  obtain Su SuTmp s2 where
    sd: "?Y = Some ((Su, SuTmp), s2)" and
    ded: "\<exists>st s'. XLoader_SetSecureState 97 ?Q demo_consts (rot_initial demo_consts)
                    = Some (st, s')
          \<and> (\<not> (Su = XST_SUCCESS \<or> SuTmp = XST_SUCCESS) \<longrightarrow>
               SecureStateAHWRoT s' = 0x5A5A5A5A \<and> SecureStateSHWRoT s' = 0xD2D2D2D2)"
    by (auto simp: Let_def demo_platform_def demo_consts_def demo_regs_bh_def XST_SUCCESS_def)
  from sd y have "Su = XST_FAILURE" "SuTmp = XST_FAILURE" by simp_all
  with ded have 2: "map_option (SecureStateAHWRoT \<circ> snd)
             (XLoader_SetSecureState 97 ?Q demo_consts (rot_initial demo_consts))
             = Some 0x5A5A5A5A
         \<and> map_option (SecureStateSHWRoT \<circ> snd)
             (XLoader_SetSecureState 97 ?Q demo_consts (rot_initial demo_consts))
             = Some 0xD2D2D2D2"
    by (auto simp: XST_FAILURE_def XST_SUCCESS_def)
  from 1 2 show ?thesis by blast
qed

section \<open>The copy driver\<close>

text \<open>Claim C5. When the loop of \<^verbatim>\<open>XLoader_SecureCopy\<close> ends with a status other than
  success (the status of the failing processor), the driver calls
  \<^verbatim>\<open>XPlmi_InitNVerifyMem\<close> on the whole range \<^verbatim>\<open>DestAddr\<close>, \<^verbatim>\<open>Size\<close> as its last
  external call, and returns the failing status OR-ed with
  \<^verbatim>\<open>XLOADER_SEC_BUF_CLEAR_ERR\<close> when the scrub failed and with
  \<^verbatim>\<open>XLOADER_SEC_BUF_CLEAR_SUCCESS\<close> when it succeeded.\<close>

theorem SecureCopy_failure_scrubs:
  assumes "XLoader_SecureCopy_loop fuel ProcessPrtn s XST_FAILURE
             (XLOADER_SECURE_CHUNK_SIZE c) Size DestAddr FALSE = Some (Status, Len, s1)"
    and "Status \<noteq> XST_SUCCESS"
    and "ClrStatus = fst (XPlmi_InitNVerifyMem p (Trace s1) (Mem s1) DestAddr Size)"
  shows "XLoader_SecureCopy fuel p c ProcessPrtn s DestAddr Size =
           Some (Status OR (if ClrStatus \<noteq> XST_SUCCESS then XLOADER_SEC_BUF_CLEAR_ERR c
                            else XLOADER_SEC_BUF_CLEAR_SUCCESS c),
                 s1\<lparr>Mem := snd (XPlmi_InitNVerifyMem p (Trace s1) (Mem s1) DestAddr Size),
                    Trace := Trace s1 @ [EvInitNVerifyMem DestAddr Size]\<rparr>)"
  using assms by (simp add: XLoader_SecureCopy_def call_InitNVerifyMem_def Let_def)

theorem SecureCopy_failure_scrubs_witness:
  "map_option fst (XLoader_SecureCopy 3 demo_platform_nocopy demo_consts
       (XLoader_ProcessChecksumPrtn demo_platform_nocopy demo_consts)
       (demo_state FALSE) 0x10000 0x180) = Some (0x5010001 OR 0x4000)
   \<and> map_option (Trace \<circ> snd) (XLoader_SecureCopy 3 demo_platform_nocopy demo_consts
       (XLoader_ProcessChecksumPrtn demo_platform_nocopy demo_consts)
       (demo_state FALSE) 0x10000 0x180)
     = Some [EvDeviceCopy 0x1000 0xF2014000 0x100 0, EvInitNVerifyMem 0x10000 0x180]"
proof -
  let ?P = "XLoader_ProcessChecksumPrtn demo_platform_nocopy demo_consts"
  let ?L = "XLoader_SecureCopy_loop 3 ?P (demo_state FALSE) XST_FAILURE
              (XLOADER_SECURE_CHUNK_SIZE demo_consts) 0x180 0x10000 FALSE"
  have l: "?L = Some (0x5010001, 0x180, snd (snd (the ?L)))"
    by code_simp
  have t: "Trace (snd (snd (the ?L))) = [EvDeviceCopy 0x1000 0xF2014000 0x100 0]"
    by code_simp
  have n: "(0x5010001 :: status) \<noteq> XST_SUCCESS"
    by (simp add: XST_SUCCESS_def)
  have k: "fst (XPlmi_InitNVerifyMem demo_platform_nocopy h m a b) = XST_SUCCESS" for h m a b
    by (simp add: demo_platform_nocopy_def demo_platform_def)
  have f: "XLOADER_SEC_BUF_CLEAR_SUCCESS demo_consts = 0x4000"
    by (simp add: demo_consts_def)
  show ?thesis
    unfolding SecureCopy_failure_scrubs [OF l n refl, of demo_platform_nocopy]
    by (simp add: k t f)
qed

section \<open>Steps that call no data mover\<close>

lemma quiet_refl: "quiet s s"
  by (simp add: quiet_def)

lemma quiet_trans: "quiet s t \<Longrightarrow> quiet t u \<Longrightarrow> quiet s u"
  by (auto simp: quiet_def)

lemma quiet_calls:
  "quiet s (snd (call_DmaXfr p s a b l f))"
  "quiet s (snd (call_Sha3Initialize p s))"
  "quiet s (snd (call_Sha3Start p s))"
  "quiet s (snd (call_Sha3Update64Bit p s a l))"
  "quiet s (snd (call_Sha3Finish p s))"
  by (simp_all add: quiet_def call_DmaXfr_def call_Sha3Initialize_def call_Sha3Start_def
      call_Sha3Update64Bit_def call_Sha3Finish_def Let_def)

lemma quiet_if: "quiet s (snd x) \<Longrightarrow> quiet s (snd y) \<Longrightarrow> quiet s (snd (if b then x else y))"
  by simp

lemma quiet_pair: "quiet s t \<Longrightarrow> quiet s (snd (a, t))"
  by simp

lemma quiet_BlkHash:
  "quiet s (snd (XLoader_VerifyHashNUpdateNext_BlkHash p c s DataAddr Size Last))"
proof -
  let ?r1 = "call_Sha3Initialize p s"
  let ?r2 = "call_Sha3Start p (snd ?r1)"
  let ?DataLen = "if IsCdo s = TRUE \<and> Last \<noteq> TRUE then Size + XLOADER_SHA3_LEN else Size"
  let ?r3 = "call_Sha3Update64Bit p (snd ?r2) DataAddr ?DataLen"
  let ?r4 = "if Last \<noteq> TRUE \<and> IsCdo s \<noteq> TRUE
             then call_Sha3Update64Bit p (snd ?r3) (ucast (ChunkAddr s + Size)) XLOADER_SHA3_LEN
             else ?r3"
  let ?r5 = "call_Sha3Finish p (snd ?r4)"
  have q1: "quiet s (snd ?r1)" by (rule quiet_calls)
  have q2: "quiet s (snd ?r2)" by (rule quiet_trans [OF q1 quiet_calls(3)])
  have q3: "quiet s (snd ?r3)" by (rule quiet_trans [OF q2 quiet_calls(4)])
  have q4: "quiet s (snd ?r4)"
  proof (cases "Last \<noteq> TRUE \<and> IsCdo s \<noteq> TRUE")
    case True
    show ?thesis
      unfolding if_P [OF True] by (rule quiet_trans [OF q3 quiet_calls(4)])
  next
    case False
    show ?thesis
      unfolding if_not_P [OF False] by (rule q3)
  qed
  have q5: "quiet s (snd ?r5)" by (rule quiet_trans [OF q4 quiet_calls(5)])
  show ?thesis
    unfolding XLoader_VerifyHashNUpdateNext_BlkHash_def Let_def
    by (intro quiet_if quiet_pair q1 q2 q3 q4 q5 quiet_refl)
qed


lemma quiet_case_sum:
  "(\<And>a. quiet s (snd (f a))) \<Longrightarrow> (\<And>b. quiet s (snd (g b)))
     \<Longrightarrow> quiet s (snd (case x of Inl a \<Rightarrow> f a | Inr b \<Rightarrow> g b))"
  by (cases x) simp_all

lemma quiet_Sha3Hash: "quiet s t \<Longrightarrow> quiet s (t\<lparr>Sha3Hash := h\<rparr>)"
  by (simp add: quiet_def)

lemma quiet_bookkeeping:
  "quiet s t \<Longrightarrow> quiet s (t\<lparr>NextBlkAddr := a, ProcessedLen := b, BlockNum := n\<rparr>)"
  by (simp add: quiet_def)

lemma quiet_VerifyHashNUpdateNext:
  "quiet s (snd (XLoader_VerifyHashNUpdateNext p c s DataAddr Size Last))"
  unfolding XLoader_VerifyHashNUpdateNext_def Let_def
  by (intro quiet_case_sum quiet_if quiet_pair quiet_Sha3Hash quiet_BlkHash)

lemma quiet_ProcessChecksumPrtn_Verify:
  "quiet s (snd (XLoader_ProcessChecksumPrtn_Verify p c s SrcAddr DataAddr TotalSize Last))"
  unfolding XLoader_ProcessChecksumPrtn_Verify_def Let_def
  by (intro quiet_if quiet_pair quiet_bookkeeping quiet_VerifyHashNUpdateNext)

section \<open>The hash-chain verifier\<close>

lemma if_Inl_InrE:
  "fst (if b then (Inl x, t) else y) = Inr H \<Longrightarrow> (\<not> b \<Longrightarrow> fst y = Inr H \<Longrightarrow> R) \<Longrightarrow> R"
  by (cases b) simp_all

lemma read_bytes_append:
  "read_bytes m a (n + k) = read_bytes m a n @ read_bytes m (a + of_nat n) k"
  by (induction k) (simp_all add: read_bytes_def add.assoc)

lemma length_read_bytes: "length (read_bytes m a n) = n"
  by (simp add: read_bytes_def)

lemma BlkHash_Inr:
  assumes "fst (XLoader_VerifyHashNUpdateNext_BlkHash p c s DataAddr Size Last) = Inr H"
  shows "H = Sha3Digest p (Sha3Data (snd (XLoader_VerifyHashNUpdateNext_BlkHash p c s
                                            DataAddr Size Last)))
       \<and> Mem (snd (XLoader_VerifyHashNUpdateNext_BlkHash p c s DataAddr Size Last)) = Mem s
       \<and> Sha3Hash (snd (XLoader_VerifyHashNUpdateNext_BlkHash p c s DataAddr Size Last))
           = Sha3Hash s
       \<and> Sha3Data (snd (XLoader_VerifyHashNUpdateNext_BlkHash p c s DataAddr Size Last)) =
          (if Last = TRUE then read_bytes (Mem s) DataAddr (unat Size)
           else if IsCdo s = TRUE
           then read_bytes (Mem s) DataAddr (unat (Size + XLOADER_SHA3_LEN))
           else read_bytes (Mem s) DataAddr (unat Size) @
                read_bytes (Mem s) (ucast (ChunkAddr s + Size)) (unat XLOADER_SHA3_LEN))"
proof -
  let ?r1 = "call_Sha3Initialize p s"
  let ?r2 = "call_Sha3Start p (snd ?r1)"
  let ?DataLen = "if IsCdo s = TRUE \<and> Last \<noteq> TRUE then Size + XLOADER_SHA3_LEN else Size"
  let ?r3 = "call_Sha3Update64Bit p (snd ?r2) DataAddr ?DataLen"
  let ?r4 = "if Last \<noteq> TRUE \<and> IsCdo s \<noteq> TRUE
             then call_Sha3Update64Bit p (snd ?r3) (ucast (ChunkAddr s + Size)) XLOADER_SHA3_LEN
             else ?r3"
  let ?r5 = "call_Sha3Finish p (snd ?r4)"
  have e: "XLoader_VerifyHashNUpdateNext_BlkHash p c s DataAddr Size Last
             = (Inr (snd (fst ?r5)), snd ?r5)"
    using assms unfolding XLoader_VerifyHashNUpdateNext_BlkHash_def Let_def
    by (elim if_Inl_InrE) (simp only: if_False)
  from assms have H: "H = snd (fst ?r5)"
    unfolding e by simp
  show ?thesis
    unfolding e H
    by (simp add: call_Sha3Initialize_def call_Sha3Start_def call_Sha3Update64Bit_def
        call_Sha3Finish_def)
qed


text \<open>Claim C1, as amended. For a chunk that is not the last, of either kind, the digest
  covers the \<^verbatim>\<open>Size\<close> payload bytes at the data address and one hash-length (48 bytes)
  after them: for the encoded (CDO) kind the 48 bytes that follow the payload at the data
  address, one range of \<^verbatim>\<open>Size + 48\<close> bytes; for the raw kind the 48 bytes at
  \<^verbatim>\<open>ChunkAddr + Size\<close>, which follow the payload in the chunk buffer. The digest of the
  last chunk covers the \<^verbatim>\<open>Size\<close> payload bytes alone.\<close>

theorem VerifyHash_digest_coverage:
  assumes digest: "XLoader_VerifyHashNUpdateNext_BlkHash p c s DataAddr Size Last
                     = (Inr BlkHash, s')"
    and nowrap: "unat Size + 48 < 2 ^ 32"
  shows "BlkHash = Sha3Digest p (Sha3Data s')
       \<and> (Last \<noteq> TRUE \<and> IsCdo s = TRUE \<longrightarrow>
            Sha3Data s' = read_bytes (Mem s) DataAddr (unat Size + 48)
          \<and> Sha3Data s' = read_bytes (Mem s) DataAddr (unat Size) @
                           read_bytes (Mem s) (DataAddr + ucast Size) 48)
       \<and> (Last \<noteq> TRUE \<and> IsCdo s \<noteq> TRUE \<longrightarrow>
            Sha3Data s' = read_bytes (Mem s) DataAddr (unat Size) @
                          read_bytes (Mem s) (ucast (ChunkAddr s + Size)) 48)
       \<and> (Last \<noteq> TRUE \<longrightarrow> length (Sha3Data s') = unat Size + 48)
       \<and> (Last = TRUE \<longrightarrow> Sha3Data s' = read_bytes (Mem s) DataAddr (unat Size))"
proof -
  have f: "fst (XLoader_VerifyHashNUpdateNext_BlkHash p c s DataAddr Size Last) = Inr BlkHash"
    and s': "snd (XLoader_VerifyHashNUpdateNext_BlkHash p c s DataAddr Size Last) = s'"
    using digest by simp_all
  note b = BlkHash_Inr [OF f, unfolded s']
  have len: "unat (Size + XLOADER_SHA3_LEN) = unat Size + 48"
    using nowrap by (simp add: XLOADER_SHA3_LEN_def unat_word_ariths)
  have sha: "unat XLOADER_SHA3_LEN = 48"
    by (simp add: XLOADER_SHA3_LEN_def)
  have cast: "(of_nat (unat Size) :: u64) = ucast Size"
    by simp
  show ?thesis
    using b by (auto simp: len sha read_bytes_append cast length_read_bytes)
qed

theorem VerifyHash_digest_coverage_witness:
  "fst (XLoader_VerifyHashNUpdateNext_BlkHash (demo_platform zero_regs) demo_consts
          (demo_state FALSE) 0x10000 16 FALSE) = Inr (replicate 48 0)
   \<and> Sha3Data (snd (XLoader_VerifyHashNUpdateNext_BlkHash (demo_platform zero_regs) demo_consts
          (demo_state FALSE) 0x10000 16 FALSE))
       = read_bytes (Mem (demo_state FALSE)) 0x10000 16 @
         read_bytes (Mem (demo_state FALSE)) 0xF2014010 48"
proof -
  let ?d = "XLoader_VerifyHashNUpdateNext_BlkHash (demo_platform zero_regs) demo_consts
              (demo_state FALSE) 0x10000 16 FALSE"
  have d: "?d = (Inr (replicate 48 0), snd ?d)"
    by code_simp
  have n: "unat (16 :: u32) + 48 < 2 ^ 32"
    by simp
  have k: "Last \<noteq> TRUE \<and> IsCdo (demo_state FALSE) \<noteq> TRUE" if "Last = FALSE" for Last
    using that by (simp add: demo_state_def TRUE_def FALSE_def)
  have a: "(ucast (ChunkAddr (demo_state FALSE) + 16) :: u64) = 0xF2014010"
    by (simp add: demo_state_def)
  note t = VerifyHash_digest_coverage [OF d n, unfolded a]
  from t k [OF refl]
  have 2: "Sha3Data (snd ?d) = read_bytes (Mem (demo_state FALSE)) 0x10000 16 @
                               read_bytes (Mem (demo_state FALSE)) 0xF2014010 48"
    by simp
  have 1: "fst ?d = Inr (replicate 48 0)"
    by (subst d) simp
  from 1 2 show ?thesis by blast
qed

text \<open>Claim C1 as stated fails for the encoded kind: on a chunk that is not the last, with
  16 bytes of payload, the engine absorbs 64 bytes before the digest is taken.\<close>

theorem VerifyHash_cdo_digest_covers_trailing_hash:
  "fst (XLoader_VerifyHashNUpdateNext_BlkHash (demo_platform zero_regs) demo_consts
          (demo_state TRUE) 0xF2014000 16 FALSE) = Inr (replicate 48 0)
   \<and> length (Sha3Data (snd (XLoader_VerifyHashNUpdateNext_BlkHash (demo_platform zero_regs)
          demo_consts (demo_state TRUE) 0xF2014000 16 FALSE))) = 64
   \<and> Trace (snd (XLoader_VerifyHashNUpdateNext_BlkHash (demo_platform zero_regs)
          demo_consts (demo_state TRUE) 0xF2014000 16 FALSE))
       = [EvSha3Initialize, EvSha3Start, EvSha3Update 0xF2014000 64, EvSha3Finish]"
  by code_simp

text \<open>Claim C6. When the digest is computed and the comparison with the expected hash
  passes, \<^verbatim>\<open>XLoader_VerifyHashNUpdateNext\<close> succeeds; on a chunk that is not the last the
  48 bytes of \<^verbatim>\<open>Sha3Hash\<close> become the 48 bytes at \<^verbatim>\<open>ChunkAddr + Size\<close>, right after
  the payload in the chunk buffer, and on the last chunk \<^verbatim>\<open>Sha3Hash\<close> stays as it
  is.\<close>

theorem VerifyHash_updates_expected_hash:
  assumes digest: "XLoader_VerifyHashNUpdateNext_BlkHash p c s DataAddr Size Last
                     = (Inr BlkHash, s1)"
    and cmp: "Xil_SMemCmp_CT (Sha3Hash s) XLOADER_SHA3_LEN BlkHash XLOADER_SHA3_LEN
                XLOADER_SHA3_LEN = XST_SUCCESS"
    and len: "length (Sha3Hash s) = 48"
  shows "XLoader_VerifyHashNUpdateNext p c s DataAddr Size Last =
           (XST_SUCCESS,
            s1\<lparr>Sha3Hash := (if Last \<noteq> TRUE
                             then read_bytes (Mem s) (ucast (ChunkAddr s + Size)) 48
                             else Sha3Hash s)\<rparr>)"
proof -
  have f: "fst (XLoader_VerifyHashNUpdateNext_BlkHash p c s DataAddr Size Last) = Inr BlkHash"
    and s1: "snd (XLoader_VerifyHashNUpdateNext_BlkHash p c s DataAddr Size Last) = s1"
    using digest by simp_all
  from BlkHash_Inr [OF f, unfolded s1]
  have m: "Mem s1 = Mem s" and h: "Sha3Hash s1 = Sha3Hash s"
    by simp_all
  have keep: "s1\<lparr>Sha3Hash := Sha3Hash s\<rparr> = s1"
    using h by simp
  have sha: "unat XLOADER_SHA3_LEN = 48"
    by (simp add: XLOADER_SHA3_LEN_def)
  show ?thesis
    unfolding XLoader_VerifyHashNUpdateNext_def Let_def digest
    using cmp len
    by (simp add: m h keep sha XSECURE_TEMPORAL_IMPL_def Xil_SMemCpy_def length_read_bytes)
qed

theorem VerifyHash_updates_expected_hash_witness:
  "fst (XLoader_VerifyHashNUpdateNext (demo_platform zero_regs) demo_consts
          demo_state_bytes 0x10000 16 FALSE) = XST_SUCCESS
   \<and> Sha3Hash (snd (XLoader_VerifyHashNUpdateNext (demo_platform zero_regs) demo_consts
          demo_state_bytes 0x10000 16 FALSE)) = map of_nat [16..<64]"
proof -
  let ?d = "XLoader_VerifyHashNUpdateNext_BlkHash (demo_platform zero_regs) demo_consts
              demo_state_bytes 0x10000 16 FALSE"
  have d: "?d = (Inr (replicate 48 0), snd ?d)"
    by code_simp
  have c: "Xil_SMemCmp_CT (Sha3Hash demo_state_bytes) XLOADER_SHA3_LEN (replicate 48 0)
             XLOADER_SHA3_LEN XLOADER_SHA3_LEN = XST_SUCCESS"
    by code_simp
  have l: "length (Sha3Hash demo_state_bytes) = 48"
    by (simp add: demo_state_bytes_def demo_state_def)
  have r: "(if FALSE \<noteq> TRUE
            then read_bytes (Mem demo_state_bytes) (ucast (ChunkAddr demo_state_bytes + 16)) 48
            else Sha3Hash demo_state_bytes) = map of_nat [16..<64]"
    by code_simp
  show ?thesis
    unfolding VerifyHash_updates_expected_hash [OF d c l] r by simp
qed

section \<open>The chunk transfer\<close>

lemma StartNextChunkCopy_effect:
  "snd (XLoader_StartNextChunkCopy p c s TotalLen NextBlkAddr_a ChunkLen) =
     s\<lparr>NextChunkAddr := (if ChunkAddr s = XPLMI_PMCRAM_CHUNK_MEMORY c
                           then XPLMI_PMCRAM_CHUNK_MEMORY_1 c
                           else XPLMI_PMCRAM_CHUNK_MEMORY c),
       IsNextChunkCopyStarted := TRUE,
       Mem := snd (DeviceCopy p (Trace s) (Mem s) NextBlkAddr_a
                     (ucast (if ChunkAddr s = XPLMI_PMCRAM_CHUNK_MEMORY c
                             then XPLMI_PMCRAM_CHUNK_MEMORY_1 c
                             else XPLMI_PMCRAM_CHUNK_MEMORY c))
                     (min TotalLen ChunkLen)
                     (XPLMI_DEVICE_COPY_STATE_INITIATE c OR ucast (DmaFlags s))),
       Trace := Trace s @
         [EvDeviceCopy NextBlkAddr_a
            (ucast (if ChunkAddr s = XPLMI_PMCRAM_CHUNK_MEMORY c
                    then XPLMI_PMCRAM_CHUNK_MEMORY_1 c
                    else XPLMI_PMCRAM_CHUNK_MEMORY c))
            (min TotalLen ChunkLen)
            (XPLMI_DEVICE_COPY_STATE_INITIATE c OR ucast (DmaFlags s))]\<rparr>"
  by (simp add: XLoader_StartNextChunkCopy_def call_DeviceCopy_def Let_def min_def)

lemma SecureChunkCopy_first:
  "XLoader_SecureChunkCopy p c s SrcAddr Last BlockSize TotalSize =
     (let Flags = ucast (if IsNextChunkCopyStarted s = TRUE
                         then (ucast (XPLMI_DEVICE_COPY_STATE_WAIT_DONE c) :: u8)
                         else ucast (XPLMI_DEVICE_COPY_STATE_BLK c)) OR ucast (DmaFlags s);
          r = DeviceCopy p (Trace s) (Mem s) SrcAddr (ucast (ChunkAddr s)) TotalSize Flags;
          s2 = s\<lparr>IsNextChunkCopyStarted :=
                    (if IsNextChunkCopyStarted s = TRUE then FALSE else IsNextChunkCopyStarted s),
                 Mem := snd r,
                 Trace := Trace s @ [EvDeviceCopy SrcAddr (ucast (ChunkAddr s)) TotalSize Flags]\<rparr>
      in if fst r \<noteq> XST_SUCCESS
         then (XPlmi_UpdateStatus p XLOADER_ERR_DATA_COPY_FAIL (fst r), s2)
         else if Last \<noteq> TRUE \<and> BlockNum s \<noteq> 0
         then XLoader_StartNextChunkCopy p c s2 (RemainingDataLen s - TotalSize)
                (SrcAddr + ucast TotalSize) BlockSize
         else (fst r, s2))"
  by (simp add: XLoader_SecureChunkCopy_def call_DeviceCopy_def Let_def)

text \<open>Claim C7. Once the blocking or waiting copy of the current chunk has succeeded,
  \<^verbatim>\<open>XLoader_SecureChunkCopy\<close> issues a second call to the data mover, with the initiate
  flag, exactly when the chunk is not the last and \<^verbatim>\<open>BlockNum\<close> is not zero. That call
  moves \<open>min (RemainingDataLen - TotalSize) BlockSize\<close> bytes from the address after
  this chunk into the scratch buffer the current chunk is not in, and the flag
  \<^verbatim>\<open>IsNextChunkCopyStarted\<close> is set; otherwise no second call is made and the flag is
  not set.\<close>

theorem SecureChunkCopy_prefetch:
  assumes ok: "fst (DeviceCopy p (Trace s) (Mem s) SrcAddr (ucast (ChunkAddr s)) TotalSize
                      Flags) = XST_SUCCESS"
    and Flags: "Flags = ucast (if IsNextChunkCopyStarted s = TRUE
                               then (ucast (XPLMI_DEVICE_COPY_STATE_WAIT_DONE c) :: u8)
                               else ucast (XPLMI_DEVICE_COPY_STATE_BLK c))
                        OR ucast (DmaFlags s)"
    and Other: "Other = (if ChunkAddr s = XPLMI_PMCRAM_CHUNK_MEMORY c
                         then XPLMI_PMCRAM_CHUNK_MEMORY_1 c
                         else XPLMI_PMCRAM_CHUNK_MEMORY c)"
    and s': "s' = snd (XLoader_SecureChunkCopy p c s SrcAddr Last BlockSize TotalSize)"
  shows "(Last \<noteq> TRUE \<and> BlockNum s \<noteq> 0 \<longrightarrow>
            Trace s' = Trace s @
              [EvDeviceCopy SrcAddr (ucast (ChunkAddr s)) TotalSize Flags,
               EvDeviceCopy (SrcAddr + ucast TotalSize) (ucast Other)
                 (min (RemainingDataLen s - TotalSize) BlockSize)
                 (XPLMI_DEVICE_COPY_STATE_INITIATE c OR ucast (DmaFlags s))]
          \<and> IsNextChunkCopyStarted s' = TRUE
          \<and> NextChunkAddr s' = Other)
       \<and> (\<not> (Last \<noteq> TRUE \<and> BlockNum s \<noteq> 0) \<longrightarrow>
            Trace s' = Trace s @ [EvDeviceCopy SrcAddr (ucast (ChunkAddr s)) TotalSize Flags]
          \<and> IsNextChunkCopyStarted s' \<noteq> TRUE
          \<and> NextChunkAddr s' = NextChunkAddr s)
       \<and> (ChunkAddr s \<in> {XPLMI_PMCRAM_CHUNK_MEMORY c, XPLMI_PMCRAM_CHUNK_MEMORY_1 c}
            \<and> XPLMI_PMCRAM_CHUNK_MEMORY c \<noteq> XPLMI_PMCRAM_CHUNK_MEMORY_1 c \<longrightarrow>
            Other \<in> {XPLMI_PMCRAM_CHUNK_MEMORY c, XPLMI_PMCRAM_CHUNK_MEMORY_1 c}
          \<and> Other \<noteq> ChunkAddr s)"
proof (cases "Last \<noteq> TRUE \<and> BlockNum s \<noteq> 0")
  case True
  then show ?thesis
    unfolding s' SecureChunkCopy_first Let_def Flags [symmetric]
    using ok Other by (simp add: StartNextChunkCopy_effect)
next
  case False
  then show ?thesis
    unfolding s' SecureChunkCopy_first Let_def Flags [symmetric]
    using ok Other by (auto simp: TRUE_def FALSE_def)
qed


theorem SecureChunkCopy_prefetch_witness:
  "Trace (snd (XLoader_SecureChunkCopy (demo_platform zero_regs) demo_consts demo_state_block1
                 0x1100 FALSE 0x100 0x100))
     = [EvDeviceCopy 0x1100 0xF2014000 0x100 0, EvDeviceCopy 0x1200 0xF2014200 0x80 0x20]
   \<and> IsNextChunkCopyStarted (snd (XLoader_SecureChunkCopy (demo_platform zero_regs)
         demo_consts demo_state_block1 0x1100 FALSE 0x100 0x100)) = TRUE
   \<and> NextChunkAddr (snd (XLoader_SecureChunkCopy (demo_platform zero_regs)
         demo_consts demo_state_block1 0x1100 FALSE 0x100 0x100)) = 0xF2014200"
proof -
  have ok: "fst (DeviceCopy (demo_platform zero_regs) h m a b l f) = XST_SUCCESS" for h m a b l f
    by (simp add: demo_platform_def)
  have k: "FALSE \<noteq> TRUE \<and> BlockNum demo_state_block1 \<noteq> 0"
    by (simp add: demo_state_block1_def demo_state_def TRUE_def FALSE_def)
  from SecureChunkCopy_prefetch [where p = "demo_platform zero_regs" and c = demo_consts
      and s = demo_state_block1 and SrcAddr = "0x1100" and TotalSize = "0x100"
      and BlockSize = "0x100" and Last = FALSE, OF ok refl refl refl] k
  show ?thesis
    by (simp add: demo_state_block1_def demo_state_def demo_consts_def TRUE_def FALSE_def)
qed

lemma SecureChunkCopy_frame:
  "ChunkAddr (snd (XLoader_SecureChunkCopy p c s SrcAddr Last BlockSize TotalSize)) = ChunkAddr s"
  "DmaFlags (snd (XLoader_SecureChunkCopy p c s SrcAddr Last BlockSize TotalSize)) = DmaFlags s"
  "IsCdo (snd (XLoader_SecureChunkCopy p c s SrcAddr Last BlockSize TotalSize)) = IsCdo s"
  unfolding SecureChunkCopy_first Let_def
  by (simp_all add: StartNextChunkCopy_effect)

section \<open>The checksum pipeline\<close>

lemma ProcessChecksumPrtn_DataAddr_quiet:
  "quiet (s\<lparr>SecureData := ChunkAddr s,
             SecureDataLen := (if Last \<noteq> TRUE then TotalSize - XLOADER_SHA3_LEN
                               else TotalSize)\<rparr>)
         (snd (XLoader_ProcessChecksumPrtn_DataAddr p c s DestAddr TotalSize Last))"
proof (cases "Last \<noteq> TRUE")
  case True
  show ?thesis
    unfolding XLoader_ProcessChecksumPrtn_DataAddr_def Let_def if_P [OF True]
    by (intro quiet_if quiet_pair quiet_calls quiet_refl)
next
  case False
  show ?thesis
    unfolding XLoader_ProcessChecksumPrtn_DataAddr_def Let_def if_not_P [OF False]
    by (intro quiet_if quiet_pair quiet_calls quiet_refl)
qed

lemma ProcessChecksumPrtn_after_copy:
  assumes "fst (XLoader_SecureChunkCopy p c (s\<lparr>ProcessedLen := 0\<rparr>) SrcAddr Last BlockSize
                  BlockSize) = XST_SUCCESS"
    and "SrcAddr = (if BlockNum s = 0
                    then FlashOfstAddr s + ucast (DataWordOfst s) * ucast (XIH_PRTN_WORD_LEN c)
                    else NextBlkAddr s)"
  shows "XLoader_ProcessChecksumPrtn p c s DestAddr BlockSize Last =
     (let r = XLoader_SecureChunkCopy p c (s\<lparr>ProcessedLen := 0\<rparr>) SrcAddr Last BlockSize
                BlockSize;
          d = XLoader_ProcessChecksumPrtn_DataAddr p c (snd r) DestAddr BlockSize Last
      in case fst d of
           Inl Status \<Rightarrow> (Status, snd d)
         | Inr DataAddr \<Rightarrow>
             XLoader_ProcessChecksumPrtn_Verify p c (snd d) SrcAddr DataAddr BlockSize Last)"
proof -
  have src: "(if BlockNum (s\<lparr>ProcessedLen := 0\<rparr>) = 0
              then FlashOfstAddr (s\<lparr>ProcessedLen := 0\<rparr>)
                   + ucast (DataWordOfst (s\<lparr>ProcessedLen := 0\<rparr>)) * ucast (XIH_PRTN_WORD_LEN c)
              else NextBlkAddr (s\<lparr>ProcessedLen := 0\<rparr>)) = SrcAddr"
    using assms(2) by simp
  show ?thesis
    unfolding XLoader_ProcessChecksumPrtn_def Let_def src
    by (simp only: assms(1) simp_thms if_False)
qed

lemma quiet_after_DataAddr:
  "quiet (snd d)
     (snd (case fst d of
             Inl Status \<Rightarrow> (Status, snd d)
           | Inr DataAddr \<Rightarrow>
               XLoader_ProcessChecksumPrtn_Verify p c (snd d) SrcAddr DataAddr TotalSize Last))"
  by (intro quiet_case_sum quiet_pair quiet_refl quiet_ProcessChecksumPrtn_Verify)

text \<open>Claim C9. Once the chunk transfer has succeeded, \<^verbatim>\<open>XLoader_ProcessChecksumPrtn\<close>
  leaves \<^verbatim>\<open>SecureData\<close> at the address of the active chunk buffer, and
  \<^verbatim>\<open>SecureDataLen\<close> at the chunk's total size less one hash-length (48) for a chunk
  that is not the last, and at the total size for the last chunk; this holds however the
  later steps of the call end.\<close>

theorem ProcessChecksumPrtn_secure_data:
  assumes ok: "fst (XLoader_SecureChunkCopy p c (s\<lparr>ProcessedLen := 0\<rparr>) SrcAddr Last
                      BlockSize BlockSize) = XST_SUCCESS"
    and src: "SrcAddr = (if BlockNum s = 0
                then FlashOfstAddr s + ucast (DataWordOfst s) * ucast (XIH_PRTN_WORD_LEN c)
                else NextBlkAddr s)"
    and s': "s' = snd (XLoader_ProcessChecksumPrtn p c s DestAddr BlockSize Last)"
  shows "SecureData s' = ChunkAddr s' \<and> ChunkAddr s' = ChunkAddr s
       \<and> SecureDataLen s' = (if Last \<noteq> TRUE then BlockSize - XLOADER_SHA3_LEN else BlockSize)"
proof -
  let ?r = "XLoader_SecureChunkCopy p c (s\<lparr>ProcessedLen := 0\<rparr>) SrcAddr Last BlockSize BlockSize"
  let ?d = "XLoader_ProcessChecksumPrtn_DataAddr p c (snd ?r) DestAddr BlockSize Last"
  let ?s2 = "(snd ?r)\<lparr>SecureData := ChunkAddr (snd ?r),
               SecureDataLen := (if Last \<noteq> TRUE then BlockSize - XLOADER_SHA3_LEN
                                 else BlockSize)\<rparr>"
  have q1: "quiet ?s2 (snd ?d)"
    by (rule ProcessChecksumPrtn_DataAddr_quiet)
  have q2: "quiet (snd ?d) s'"
    unfolding s' ProcessChecksumPrtn_after_copy [OF ok src] Let_def
    by (rule quiet_after_DataAddr)
  have c: "ChunkAddr (snd ?r) = ChunkAddr s"
    by (simp add: SecureChunkCopy_frame)
  from quiet_trans [OF q1 q2] c show ?thesis
    by (simp add: quiet_def)
qed

theorem ProcessChecksumPrtn_secure_data_witness:
  "SecureData (snd (XLoader_ProcessChecksumPrtn (demo_platform zero_regs) demo_consts
                      (demo_state FALSE) 0x10000 0x100 FALSE)) = 0xF2014000
   \<and> ChunkAddr (snd (XLoader_ProcessChecksumPrtn (demo_platform zero_regs) demo_consts
                      (demo_state FALSE) 0x10000 0x100 FALSE)) = 0xF2014000
   \<and> SecureDataLen (snd (XLoader_ProcessChecksumPrtn (demo_platform zero_regs) demo_consts
                      (demo_state FALSE) 0x10000 0x100 FALSE)) = 0xD0"
proof -
  have ok: "fst (XLoader_SecureChunkCopy (demo_platform zero_regs) demo_consts
                   ((demo_state FALSE)\<lparr>ProcessedLen := 0\<rparr>) 0x1000 FALSE 0x100 0x100)
              = XST_SUCCESS"
    by code_simp
  have src: "(0x1000 :: u64) = (if BlockNum (demo_state FALSE) = 0
                then FlashOfstAddr (demo_state FALSE) + ucast (DataWordOfst (demo_state FALSE))
                       * ucast (XIH_PRTN_WORD_LEN demo_consts)
                else NextBlkAddr (demo_state FALSE))"
    by (simp add: demo_state_def demo_consts_def)
  from ProcessChecksumPrtn_secure_data [OF ok src refl, of "0x10000"]
  show ?thesis
    by (simp add: demo_state_def TRUE_def FALSE_def XLOADER_SHA3_LEN_def)
qed

lemma ProcessChecksumPrtn_copy_failed:
  assumes "fst (XLoader_SecureChunkCopy p c (s\<lparr>ProcessedLen := 0\<rparr>) SrcAddr Last BlockSize
                  BlockSize) \<noteq> XST_SUCCESS"
    and "SrcAddr = (if BlockNum s = 0
                    then FlashOfstAddr s + ucast (DataWordOfst s) * ucast (XIH_PRTN_WORD_LEN c)
                    else NextBlkAddr s)"
  shows "XLoader_ProcessChecksumPrtn p c s DestAddr BlockSize Last =
           XLoader_SecureChunkCopy p c (s\<lparr>ProcessedLen := 0\<rparr>) SrcAddr Last BlockSize BlockSize"
proof -
  have src: "(if BlockNum (s\<lparr>ProcessedLen := 0\<rparr>) = 0
              then FlashOfstAddr (s\<lparr>ProcessedLen := 0\<rparr>)
                   + ucast (DataWordOfst (s\<lparr>ProcessedLen := 0\<rparr>)) * ucast (XIH_PRTN_WORD_LEN c)
              else NextBlkAddr (s\<lparr>ProcessedLen := 0\<rparr>)) = SrcAddr"
    using assms(2) by simp
  show ?thesis
    unfolding XLoader_ProcessChecksumPrtn_def Let_def src
    by (simp only: assms(1) simp_thms if_True)
qed

section \<open>Progress of the copy driver under the checksum processor\<close>

lemma ProcessChecksumPrtn_DataAddr_Inl:
  "fst (XLoader_ProcessChecksumPrtn_DataAddr p c s DestAddr TotalSize Last) = Inl st
     \<Longrightarrow> \<exists>x. st = XPlmi_UpdateStatus p XLOADER_ERR_DMA_TRANSFER x"
  by (auto simp: XLoader_ProcessChecksumPrtn_DataAddr_def Let_def split: if_splits)

lemma ProcessChecksumPrtn_Verify_ProcessedLen:
  "fst (XLoader_ProcessChecksumPrtn_Verify p c s SrcAddr DataAddr TotalSize Last) = XST_SUCCESS
     \<Longrightarrow> ProcessedLen (snd (XLoader_ProcessChecksumPrtn_Verify p c s SrcAddr DataAddr
                                TotalSize Last)) = TotalSize"
  by (simp add: XLoader_ProcessChecksumPrtn_Verify_def Let_def split: if_splits)

lemma ProcessChecksumPrtn_ProcessedLen:
  assumes nz: "\<And>st. XPlmi_UpdateStatus p XLOADER_ERR_DMA_TRANSFER st \<noteq> XST_SUCCESS"
    and ok: "fst (XLoader_ProcessChecksumPrtn p c s DestAddr BlockSize Last) = XST_SUCCESS"
  shows "ProcessedLen (snd (XLoader_ProcessChecksumPrtn p c s DestAddr BlockSize Last))
           = BlockSize"
proof -
  define SrcAddr where "SrcAddr = (if BlockNum s = 0
      then FlashOfstAddr s + ucast (DataWordOfst s) * ucast (XIH_PRTN_WORD_LEN c)
      else NextBlkAddr s)"
  let ?r = "XLoader_SecureChunkCopy p c (s\<lparr>ProcessedLen := 0\<rparr>) SrcAddr Last BlockSize BlockSize"
  let ?d = "XLoader_ProcessChecksumPrtn_DataAddr p c (snd ?r) DestAddr BlockSize Last"
  show ?thesis
  proof (cases "fst ?r = XST_SUCCESS")
    case False
    from ProcessChecksumPrtn_copy_failed [OF False SrcAddr_def] ok False
    show ?thesis by simp
  next
    case True
    note e = ProcessChecksumPrtn_after_copy [OF True SrcAddr_def, unfolded Let_def]
    show ?thesis
    proof (cases "fst ?d")
      case (Inl st)
      from ProcessChecksumPrtn_DataAddr_Inl [OF Inl] nz have "st \<noteq> XST_SUCCESS" by auto
      with ok show ?thesis unfolding e Inl by simp
    next
      case (Inr DataAddr)
      from ok show ?thesis
        unfolding e Inr by (simp add: ProcessChecksumPrtn_Verify_ProcessedLen)
    qed
  qed
qed

lemma SecureCopy_loop_returns:
  assumes nz: "\<And>st. XPlmi_UpdateStatus p XLOADER_ERR_DMA_TRANSFER st \<noteq> XST_SUCCESS"
  shows "0 < ChunkLen \<Longrightarrow> unat Len < n \<Longrightarrow>
         \<exists>St Len' s'. XLoader_SecureCopy_loop n (XLoader_ProcessChecksumPrtn p c) s Status
                         ChunkLen Len LoadAddr LastChunk = Some (St, Len', s')
                     \<and> (St = XST_SUCCESS \<longrightarrow> Len' = 0)"
proof (induction n arbitrary: s Status ChunkLen Len LoadAddr LastChunk)
  case 0
  then show ?case by simp
next
  case (Suc n)
  show ?case
  proof (cases "0 < Len")
    case False
    then show ?thesis by (simp add: word_gt_0)
  next
    case pos: True
    define ChunkLen' where "ChunkLen' = (if Len \<le> ChunkLen then Len else ChunkLen)"
    define LastChunk' where "LastChunk' = (if Len \<le> ChunkLen then TRUE else LastChunk)"
    define r where "r = XLoader_ProcessChecksumPrtn p c (s\<lparr>RemainingDataLen := Len\<rparr>)
                          LoadAddr ChunkLen' LastChunk'"
    have c0: "0 < ChunkLen'" and cle: "ChunkLen' \<le> Len"
      using pos Suc.prems(1) by (auto simp: ChunkLen'_def)
    have step: "XLoader_SecureCopy_loop (Suc n) (XLoader_ProcessChecksumPrtn p c) s Status
                  ChunkLen Len LoadAddr LastChunk =
        (if fst r \<noteq> XST_SUCCESS then Some (fst r, Len, snd r)
         else XLoader_SecureCopy_loop n (XLoader_ProcessChecksumPrtn p c)
                ((snd r)\<lparr>ChunkAddr := NextChunkAddr (snd r)\<rparr>) (fst r) ChunkLen'
                (Len - ProcessedLen (snd r)) (LoadAddr + ucast (SecureDataLen (snd r)))
                LastChunk')"
      using pos by (simp add: Let_def r_def ChunkLen'_def LastChunk'_def)
    show ?thesis
    proof (cases "fst r = XST_SUCCESS")
      case False
      then show ?thesis unfolding step by simp
    next
      case True
      have pl: "ProcessedLen (snd r) = ChunkLen'"
        using ProcessChecksumPrtn_ProcessedLen [OF nz True [unfolded r_def]] by (simp add: r_def)
      have sub: "unat (Len - ChunkLen') = unat Len - unat ChunkLen'"
        using cle by (simp add: unat_sub)
      have "0 < unat ChunkLen'" using c0 by (simp add: word_less_nat_alt)
      with sub Suc.prems(2) cle have lt: "unat (Len - ChunkLen') < n"
        by (simp add: word_le_nat_alt)
      from Suc.IH [OF c0 lt]
      obtain St Len' s' where
        rec: "XLoader_SecureCopy_loop n (XLoader_ProcessChecksumPrtn p c)
                ((snd r)\<lparr>ChunkAddr := NextChunkAddr (snd r)\<rparr>) (fst r) ChunkLen'
                (Len - ChunkLen') (LoadAddr + ucast (SecureDataLen (snd r))) LastChunk'
              = Some (St, Len', s')"
        and z: "St = XST_SUCCESS \<longrightarrow> Len' = 0"
        by blast
      with rec True show ?thesis unfolding step pl by simp
    qed
  qed
qed


text \<open>Claim C8. Under the checksum processor, with a chunk size that is not zero and a
  status packer that never packs a failure into the success code. An iteration of the
  loop of \<^verbatim>\<open>XLoader_SecureCopy\<close> at a positive remaining length calls the processor
  on a chunk of positive length: when the processor fails the loop leaves with its status;
  when it succeeds the loop goes on with the remaining length \<^verbatim>\<open>Len - ProcessedLen\<close>,
  which is the remaining length less the chunk length and strictly smaller. The loop
  returns (fuel of one more than the size suffices, and so does the driver); a run that
  ends with success ends with remaining length zero; and at remaining length zero the
  loop ends at once, without a call to the processor.\<close>

theorem SecureCopy_loop_progress:
  assumes nz: "\<forall>st. XPlmi_UpdateStatus p XLOADER_ERR_DMA_TRANSFER st \<noteq> XST_SUCCESS"
    and chunk: "0 < XLOADER_SECURE_CHUNK_SIZE c"
  shows "(0 < Len \<and> 0 < ChunkLen \<longrightarrow>
           (let ChunkLen' = (if Len \<le> ChunkLen then Len else ChunkLen);
                LastChunk' = (if Len \<le> ChunkLen then TRUE else LastChunk);
                r = XLoader_ProcessChecksumPrtn p c (s\<lparr>RemainingDataLen := Len\<rparr>) LoadAddr
                      ChunkLen' LastChunk'
            in (fst r \<noteq> XST_SUCCESS \<longrightarrow>
                  XLoader_SecureCopy_loop (Suc n) (XLoader_ProcessChecksumPrtn p c) s Status
                    ChunkLen Len LoadAddr LastChunk = Some (fst r, Len, snd r))
             \<and> (fst r = XST_SUCCESS \<longrightarrow>
                  XLoader_SecureCopy_loop (Suc n) (XLoader_ProcessChecksumPrtn p c) s Status
                    ChunkLen Len LoadAddr LastChunk
                  = XLoader_SecureCopy_loop n (XLoader_ProcessChecksumPrtn p c)
                      ((snd r)\<lparr>ChunkAddr := NextChunkAddr (snd r)\<rparr>) XST_SUCCESS ChunkLen'
                      (Len - ProcessedLen (snd r))
                      (LoadAddr + ucast (SecureDataLen (snd r))) LastChunk'
                \<and> 0 < ChunkLen'
                \<and> ProcessedLen (snd r) = ChunkLen'
                \<and> Len - ProcessedLen (snd r) < Len)))
       \<and> (0 < Len \<and> 0 < ChunkLen
            \<and> fst (XLoader_ProcessChecksumPrtn p c (s\<lparr>RemainingDataLen := Len\<rparr>) LoadAddr
                     (if Len \<le> ChunkLen then Len else ChunkLen) LastChunk) = XST_SUCCESS
          \<longrightarrow> Len - ProcessedLen (snd (XLoader_ProcessChecksumPrtn p c
                       (s\<lparr>RemainingDataLen := Len\<rparr>) LoadAddr
                       (if Len \<le> ChunkLen then Len else ChunkLen) LastChunk)) < Len)
       \<and> (\<exists>St Len' s'.
             XLoader_SecureCopy_loop (Suc (unat Size)) (XLoader_ProcessChecksumPrtn p c) s
               XST_FAILURE (XLOADER_SECURE_CHUNK_SIZE c) Size DestAddr FALSE
               = Some (St, Len', s')
           \<and> (St = XST_SUCCESS \<longrightarrow> Len' = 0))
       \<and> (\<exists>res. XLoader_SecureCopy (Suc (unat Size)) p c (XLoader_ProcessChecksumPrtn p c) s
                    DestAddr Size = Some res)
       \<and> XLoader_SecureCopy_loop (Suc n) (XLoader_ProcessChecksumPrtn p c) s Status ChunkLen 0
           LoadAddr LastChunk = Some (Status, 0, s)"
proof -
  have nz': "\<And>st. XPlmi_UpdateStatus p XLOADER_ERR_DMA_TRANSFER st \<noteq> XST_SUCCESS"
    using nz by simp
  have less: "Len - ProcessedLen (snd (XLoader_ProcessChecksumPrtn p c
                 (s\<lparr>RemainingDataLen := Len\<rparr>) LoadAddr
                 (if Len \<le> ChunkLen then Len else ChunkLen) L)) < Len
            \<and> ProcessedLen (snd (XLoader_ProcessChecksumPrtn p c
                 (s\<lparr>RemainingDataLen := Len\<rparr>) LoadAddr
                 (if Len \<le> ChunkLen then Len else ChunkLen) L))
                = (if Len \<le> ChunkLen then Len else ChunkLen)
            \<and> 0 < (if Len \<le> ChunkLen then Len else ChunkLen)"
    if pos: "0 < Len" and cpos: "0 < ChunkLen"
      and ok: "fst (XLoader_ProcessChecksumPrtn p c (s\<lparr>RemainingDataLen := Len\<rparr>) LoadAddr
                     (if Len \<le> ChunkLen then Len else ChunkLen) L) = XST_SUCCESS"
    for L
  proof -
    let ?C = "if Len \<le> ChunkLen then Len else ChunkLen"
    have c0: "0 < ?C" and cle: "?C \<le> Len"
      using pos cpos by auto
    have "unat (Len - ?C) = unat Len - unat ?C"
      using cle by (simp add: unat_sub)
    moreover have "0 < unat ?C" "unat ?C \<le> unat Len"
      using c0 cle by (simp_all add: word_less_nat_alt word_le_nat_alt)
    ultimately have "Len - ?C < Len"
      by (simp add: word_less_nat_alt)
    with c0 show ?thesis
      unfolding ProcessChecksumPrtn_ProcessedLen [OF nz' ok] by simp
  qed
  have S: "(let ChunkLen' = (if Len \<le> ChunkLen then Len else ChunkLen);
                LastChunk' = (if Len \<le> ChunkLen then TRUE else LastChunk);
                r = XLoader_ProcessChecksumPrtn p c (s\<lparr>RemainingDataLen := Len\<rparr>) LoadAddr
                      ChunkLen' LastChunk'
            in (fst r \<noteq> XST_SUCCESS \<longrightarrow>
                  XLoader_SecureCopy_loop (Suc n) (XLoader_ProcessChecksumPrtn p c) s Status
                    ChunkLen Len LoadAddr LastChunk = Some (fst r, Len, snd r))
             \<and> (fst r = XST_SUCCESS \<longrightarrow>
                  XLoader_SecureCopy_loop (Suc n) (XLoader_ProcessChecksumPrtn p c) s Status
                    ChunkLen Len LoadAddr LastChunk
                  = XLoader_SecureCopy_loop n (XLoader_ProcessChecksumPrtn p c)
                      ((snd r)\<lparr>ChunkAddr := NextChunkAddr (snd r)\<rparr>) XST_SUCCESS ChunkLen'
                      (Len - ProcessedLen (snd r))
                      (LoadAddr + ucast (SecureDataLen (snd r))) LastChunk'
                \<and> 0 < ChunkLen'
                \<and> ProcessedLen (snd r) = ChunkLen'
                \<and> Len - ProcessedLen (snd r) < Len))"
    if pos: "0 < Len" and cpos: "0 < ChunkLen"
  proof -
    define ChunkLen' where "ChunkLen' = (if Len \<le> ChunkLen then Len else ChunkLen)"
    define LastChunk' where "LastChunk' = (if Len \<le> ChunkLen then TRUE else LastChunk)"
    define r where "r = XLoader_ProcessChecksumPrtn p c (s\<lparr>RemainingDataLen := Len\<rparr>)
                          LoadAddr ChunkLen' LastChunk'"
    have step: "XLoader_SecureCopy_loop (Suc n) (XLoader_ProcessChecksumPrtn p c) s Status
                  ChunkLen Len LoadAddr LastChunk =
        (if fst r \<noteq> XST_SUCCESS then Some (fst r, Len, snd r)
         else XLoader_SecureCopy_loop n (XLoader_ProcessChecksumPrtn p c)
                ((snd r)\<lparr>ChunkAddr := NextChunkAddr (snd r)\<rparr>) (fst r) ChunkLen'
                (Len - ProcessedLen (snd r)) (LoadAddr + ucast (SecureDataLen (snd r)))
                LastChunk')"
      using pos by (simp add: Let_def r_def ChunkLen'_def LastChunk'_def)
    have l: "Len - ProcessedLen (snd r) < Len \<and> ProcessedLen (snd r) = ChunkLen'
             \<and> 0 < ChunkLen'"
      if ok: "fst r = XST_SUCCESS"
    proof -
      have ok': "fst (XLoader_ProcessChecksumPrtn p c (s\<lparr>RemainingDataLen := Len\<rparr>) LoadAddr
                       (if Len \<le> ChunkLen then Len else ChunkLen) LastChunk') = XST_SUCCESS"
        using ok unfolding r_def ChunkLen'_def .
      show ?thesis
        unfolding r_def ChunkLen'_def by (rule less [OF pos cpos ok'])
    qed
    have "(fst r \<noteq> XST_SUCCESS \<longrightarrow>
             XLoader_SecureCopy_loop (Suc n) (XLoader_ProcessChecksumPrtn p c) s Status
               ChunkLen Len LoadAddr LastChunk = Some (fst r, Len, snd r))
        \<and> (fst r = XST_SUCCESS \<longrightarrow>
             XLoader_SecureCopy_loop (Suc n) (XLoader_ProcessChecksumPrtn p c) s Status
               ChunkLen Len LoadAddr LastChunk
             = XLoader_SecureCopy_loop n (XLoader_ProcessChecksumPrtn p c)
                 ((snd r)\<lparr>ChunkAddr := NextChunkAddr (snd r)\<rparr>) XST_SUCCESS ChunkLen'
                 (Len - ProcessedLen (snd r))
                 (LoadAddr + ucast (SecureDataLen (snd r))) LastChunk'
           \<and> 0 < ChunkLen'
           \<and> ProcessedLen (snd r) = ChunkLen'
           \<and> Len - ProcessedLen (snd r) < Len)"
      unfolding step using l by auto
    then show ?thesis
      unfolding Let_def r_def ChunkLen'_def LastChunk'_def .
  qed
  have A: "Len - ProcessedLen (snd (XLoader_ProcessChecksumPrtn p c
                       (s\<lparr>RemainingDataLen := Len\<rparr>) LoadAddr
                       (if Len \<le> ChunkLen then Len else ChunkLen) LastChunk)) < Len"
    if "0 < Len" "0 < ChunkLen"
       "fst (XLoader_ProcessChecksumPrtn p c (s\<lparr>RemainingDataLen := Len\<rparr>) LoadAddr
               (if Len \<le> ChunkLen then Len else ChunkLen) LastChunk) = XST_SUCCESS"
    by (rule less [OF that, THEN conjunct1])
  from SecureCopy_loop_returns [OF nz' chunk, of Size "Suc (unat Size)" c s XST_FAILURE
      DestAddr FALSE]
  obtain St Len' s' where
    B: "XLoader_SecureCopy_loop (Suc (unat Size)) (XLoader_ProcessChecksumPrtn p c) s
          XST_FAILURE (XLOADER_SECURE_CHUNK_SIZE c) Size DestAddr FALSE = Some (St, Len', s')"
    and B': "St = XST_SUCCESS \<longrightarrow> Len' = 0"
    by auto
  have C: "\<exists>res. XLoader_SecureCopy (Suc (unat Size)) p c (XLoader_ProcessChecksumPrtn p c) s
                    DestAddr Size = Some res"
    unfolding XLoader_SecureCopy_def B by (simp add: Let_def)
  have D: "XLoader_SecureCopy_loop (Suc n) (XLoader_ProcessChecksumPrtn p c) s Status ChunkLen 0
             LoadAddr LastChunk = Some (Status, 0, s)"
    by simp
  from S A B B' C D show ?thesis by blast
qed

lemma demo_UpdateStatus_nonzero:
  "XPlmi_UpdateStatus (demo_platform regs) XLOADER_ERR_DMA_TRANSFER st \<noteq> XST_SUCCESS"
proof -
  have "push_bit 16 (0x504 :: 32 word) \<noteq> 0" by simp
  then have "push_bit 16 (0x504 :: 32 word) OR (st AND 0xFFFF) \<noteq> 0"
    by (simp add: or_eq_0_iff)
  then show ?thesis
    by (simp add: demo_platform_def demo_consts_def XST_SUCCESS_def)
qed

theorem SecureCopy_loop_progress_witness:
  "XLoader_SecureCopy_loop (Suc 640)
       (XLoader_ProcessChecksumPrtn (demo_platform zero_regs) demo_consts) (demo_state FALSE)
       XST_FAILURE 0x100 0x280 0x10000 FALSE
     = XLoader_SecureCopy_loop 640
         (XLoader_ProcessChecksumPrtn (demo_platform zero_regs) demo_consts)
         ((snd (XLoader_ProcessChecksumPrtn (demo_platform zero_regs) demo_consts
                  ((demo_state FALSE)\<lparr>RemainingDataLen := 0x280\<rparr>) 0x10000 0x100 FALSE))
            \<lparr>ChunkAddr := NextChunkAddr
               (snd (XLoader_ProcessChecksumPrtn (demo_platform zero_regs) demo_consts
                  ((demo_state FALSE)\<lparr>RemainingDataLen := 0x280\<rparr>) 0x10000 0x100 FALSE))\<rparr>)
         XST_SUCCESS 0x100 0x180
         (0x10000 + ucast (SecureDataLen
               (snd (XLoader_ProcessChecksumPrtn (demo_platform zero_regs) demo_consts
                  ((demo_state FALSE)\<lparr>RemainingDataLen := 0x280\<rparr>) 0x10000 0x100 FALSE))))
         FALSE
   \<and> ProcessedLen (snd (XLoader_ProcessChecksumPrtn (demo_platform zero_regs) demo_consts
          ((demo_state FALSE)\<lparr>RemainingDataLen := 0x280\<rparr>) 0x10000 0x100 FALSE)) = 0x100
   \<and> (0x280 :: u32) - 0x100 < 0x280
   \<and> map_option fst (XLoader_SecureCopy_loop (Suc (unat (0x280 :: u32)))
       (XLoader_ProcessChecksumPrtn (demo_platform zero_regs) demo_consts) (demo_state FALSE)
       XST_FAILURE (XLOADER_SECURE_CHUNK_SIZE demo_consts) 0x280 0x10000 FALSE)
     = Some XST_SUCCESS
   \<and> map_option (fst \<circ> snd) (XLoader_SecureCopy_loop (Suc (unat (0x280 :: u32)))
       (XLoader_ProcessChecksumPrtn (demo_platform zero_regs) demo_consts) (demo_state FALSE)
       XST_FAILURE (XLOADER_SECURE_CHUNK_SIZE demo_consts) 0x280 0x10000 FALSE)
     = Some 0"
proof -
  let ?P = "XLoader_ProcessChecksumPrtn (demo_platform zero_regs) demo_consts"
  let ?r = "?P ((demo_state FALSE)\<lparr>RemainingDataLen := 0x280\<rparr>) 0x10000 0x100 FALSE"
  let ?L = "XLoader_SecureCopy_loop (Suc (unat (0x280 :: u32))) ?P (demo_state FALSE)
       XST_FAILURE (XLOADER_SECURE_CHUNK_SIZE demo_consts) 0x280 0x10000 FALSE"
  have nz: "\<forall>st. XPlmi_UpdateStatus (demo_platform zero_regs) XLOADER_ERR_DMA_TRANSFER st
                \<noteq> XST_SUCCESS"
    by (simp add: demo_UpdateStatus_nonzero)
  have ch: "0 < XLOADER_SECURE_CHUNK_SIZE demo_consts"
    by (simp add: demo_consts_def)
  have r: "fst ?r = XST_SUCCESS"
    by code_simp
  have ok: "map_option fst ?L = Some XST_SUCCESS"
    by code_simp
  note t = SecureCopy_loop_progress [OF nz ch, where Len = "0x280" and ChunkLen = "0x100"
      and s = "demo_state FALSE" and LoadAddr = "0x10000" and LastChunk = FALSE
      and n = 640 and Status = XST_FAILURE and Size = "0x280" and DestAddr = "0x10000"]
  have c: "(if (0x280 :: u32) \<le> 0x100 then (0x280 :: u32) else 0x100) = 0x100"
    "(if (0x280 :: u32) \<le> 0x100 then TRUE else FALSE) = FALSE"
    "(0 :: u32) < 0x280 \<and> (0 :: u32) < 0x100"
    by simp_all
  from t [THEN conjunct1, unfolded Let_def c] r c(3)
  have 1: "XLoader_SecureCopy_loop (Suc 640) ?P (demo_state FALSE) XST_FAILURE 0x100 0x280
             0x10000 FALSE
           = XLoader_SecureCopy_loop 640 ?P ((snd ?r)\<lparr>ChunkAddr := NextChunkAddr (snd ?r)\<rparr>)
               XST_SUCCESS 0x100 (0x280 - ProcessedLen (snd ?r))
               (0x10000 + ucast (SecureDataLen (snd ?r))) FALSE"
    and 2: "ProcessedLen (snd ?r) = 0x100"
    and 3: "0x280 - ProcessedLen (snd ?r) < 0x280"
    by blast+
  from t [THEN conjunct2, THEN conjunct2, THEN conjunct1] ok
  have 4: "map_option fst ?L = Some XST_SUCCESS \<and> map_option (fst \<circ> snd) ?L = Some 0"
    by auto
  have 5: "(0x280 :: u32) - 0x100 = 0x180"
    by simp
  from 1 2 3 4 show ?thesis
    unfolding 2 5 by simp
qed

section \<open>The order of the data-mover calls\<close>



















end
